theory Spec2Isabelle
  imports Complex_Main
begin

section \<open>Python values, rows and exceptions\<close>

text \<open>
  The converters move JSON-like Python values around: the properties of a GeoJSON feature,
  the entries of a time series, and the SensorThings entities they build. A dictionary is
  an association list (Python dictionaries keep insertion order; the first binding of a key
  is the one a lookup finds). Characters are code points below 256.

  \<open>VTimestamp\<close> stands for the values that have an \<open>isoformat\<close> method: a
  \<open>pd.Timestamp\<close> or \<open>datetime\<close>, given by its fields and, when it carries a time zone,
  the offset from UTC in minutes, and pandas' \<open>NaT\<close> (not a time), which \<open>pd.to_datetime\<close>
  returns for an empty string and whose \<open>isoformat()\<close> is \<open>'NaT'\<close>.

  \<open>VPoint x y\<close> is a shapely \<open>Point\<close> with coordinates and \<open>VPointEmpty\<close> the empty
  \<open>Point\<close> (GeoJSON coordinates \<open>[]\<close>), which is an instance of \<open>Point\<close> too but has no
  \<open>x\<close> and \<open>y\<close>; \<open>VGeometry\<close> is any other shapely geometry. Floats are only passed
  through by the code, never computed with, so a float is represented by the real it
  denotes, and \<open>VNaN\<close> is the float NaN that pandas puts where a feature lacks a property.
\<close>

datatype timestamp =
    NaT
  | Timestamp (ts_year: nat) (ts_month: nat) (ts_day: nat)
              (ts_hour: nat) (ts_minute: nat) (ts_second: nat)
              (ts_utcoffset: "int option")

datatype pyval =
    VNone
  | VBool bool
  | VInt int
  | VFloat real
  | VNaN
  | VStr string
  | VTimestamp timestamp
  | VPoint real real
  | VPointEmpty
  | VGeometry string
  | VList "pyval list"
  | VDict "(string \<times> pyval) list"

text \<open>
  The exceptions the modelled code meets; all are subclasses of Python's \<open>Exception\<close>.
  \<open>ValueError\<close> is the spec's InvalidArgument, \<open>HTTPError\<close> its TransportError.
  \<open>GeometryError\<close> is what shapely raises when a coordinate of an empty \<open>Point\<close> is read.
\<close>

datatype exception =
    ValueError string
  | AttributeError
  | TypeError
  | KeyError
  | JSONDecodeError
  | HTTPError int
  | ConnectionError
  | GeometryError
  | OtherError string

text \<open>A row of the data frame (a pandas Series): column name to value.\<close>

type_synonym row = "(string \<times> pyval) list"

text \<open>\<open>row.get(key, default)\<close>; the default is \<open>None\<close> when the call gives none.\<close>

definition row_get :: "row \<Rightarrow> string \<Rightarrow> pyval \<Rightarrow> pyval" where
  "row_get row key dflt = (case map_of row key of None \<Rightarrow> dflt | Some v \<Rightarrow> v)"

text \<open>\<open>d[key]\<close> on a dictionary value, \<open>None\<close> where Python raises.\<close>

fun getitem :: "pyval \<Rightarrow> string \<Rightarrow> pyval option" where
  "getitem (VDict d) key = map_of d key"
| "getitem _ key = None"

section \<open>Snapshot path: the entity builders\<close>

text \<open>
  Each builder starts from an empty list and appends while it iterates over the rows in
  index order. The loop is a recursion over the remaining rows with the list built so far;
  the dictionary literal of the loop body is a definition of its own. The library function
  \<open>str\<close> (an f-string formats a value as \<open>str\<close> does) and the method \<open>isoformat\<close> are
  parameters.
\<close>

definition Thing_entity :: "row \<Rightarrow> pyval" where
  "Thing_entity row = VDict
     [(''@iot.id'', row_get row ''stationId'' VNone),
      (''name'', row_get row ''name'' (VStr [])),
      (''description'', VStr ''Sensor station measuring temperature and humidity''),
      (''properties'', VDict
         [(''outdated'', row_get row ''outdated'' VNone),
          (''measurementsPlausible'', row_get row ''measurementsPlausible'' VNone)])]"

fun ThingBuilder_loop :: "row list \<Rightarrow> pyval list \<Rightarrow> pyval list" where
  "ThingBuilder_loop [] things = things"
| "ThingBuilder_loop (row # df) things = ThingBuilder_loop df (things @ [Thing_entity row])"

definition ThingBuilder_build :: "row list \<Rightarrow> pyval list" where
  "ThingBuilder_build df = ThingBuilder_loop df []"

text \<open>\<open>isinstance(geom, Point)\<close>\<close>

fun isinstance_Point :: "pyval \<Rightarrow> bool" where
  "isinstance_Point (VPoint x y) = True"
| "isinstance_Point VPointEmpty = True"
| "isinstance_Point _ = False"

text \<open>
  \<open>geom.x\<close> and \<open>geom.y\<close>: the coordinate of a \<open>Point\<close> that has one; on the empty
  \<open>Point\<close> the read raises, and other values have no such attribute.
\<close>

fun Point_x :: "pyval \<Rightarrow> exception + real" where
  "Point_x (VPoint x y) = Inr x"
| "Point_x VPointEmpty = Inl GeometryError"
| "Point_x _ = Inl AttributeError"

fun Point_y :: "pyval \<Rightarrow> exception + real" where
  "Point_y (VPoint x y) = Inr y"
| "Point_y VPointEmpty = Inl GeometryError"
| "Point_y _ = Inl AttributeError"

text \<open>The dictionary the loop appends, from the row and the list \<open>coords\<close>.\<close>

definition Location_entity :: "row \<Rightarrow> pyval \<Rightarrow> pyval" where
  "Location_entity row coords = VDict
     [(''@iot.id'', row_get row ''stationId'' VNone),
      (''name'', row_get row ''name'' (VStr [])),
      (''description'', VStr ''Geographic location of the sensor''),
      (''encodingType'', VStr ''application/vnd.geo+json''),
      (''location'', VDict
         [(''type'', VStr ''Point''),
          (''coordinates'', coords)])]"

text \<open>
  \<open>LocationBuilder.build\<close>: a row whose geometry is not a \<open>Point\<close> is skipped; for the
  others \<open>coords = [geom.x, geom.y]\<close> is read first, and an exception of that read leaves
  the loop and the builder.
\<close>

fun LocationBuilder_loop :: "row list \<Rightarrow> pyval list \<Rightarrow> exception + pyval list" where
  "LocationBuilder_loop [] locations = Inr locations"
| "LocationBuilder_loop (row # df) locations =
     (let geom = row_get row ''geometry'' VNone
      in if \<not> isinstance_Point geom then LocationBuilder_loop df locations
         else (case Point_x geom of
                 Inl e \<Rightarrow> Inl e
               | Inr x \<Rightarrow>
                   (case Point_y geom of
                      Inl e \<Rightarrow> Inl e
                    | Inr y \<Rightarrow>
                        LocationBuilder_loop df
                          (locations @ [Location_entity row (VList [VFloat x, VFloat y])]))))"

definition LocationBuilder_build :: "row list \<Rightarrow> exception + pyval list" where
  "LocationBuilder_build df = LocationBuilder_loop df []"

definition OM_Measurement :: string where
  "OM_Measurement = ''http://www.opengis.net/def/observationType/OGC-OM/2.0/OM_Measurement''"

definition ucum_para_30 :: string where
  "ucum_para_30 = ''http://unitsofmeasure.org/ucum.html#para-30''"

definition temperature_Datastream :: "(pyval \<Rightarrow> string) \<Rightarrow> row \<Rightarrow> pyval" where
  "temperature_Datastream str row =
     (let sid = row_get row ''stationId'' VNone;
          name = row_get row ''name'' (VStr [])
      in VDict
        [(''@iot.id'', VStr (str sid @ ''-temperature'')),
         (''name'', VStr (''Temperature Datastream for '' @ str name)),
         (''description'', VStr ''Temperature measurements''),
         (''unitOfMeasurement'', VDict
            [(''symbol'', VStr [CHR 0xB0, CHR ''C'']),
             (''name'', VStr ''Degree Celsius''),
             (''definition'', VStr ucum_para_30)]),
         (''observationType'', VStr OM_Measurement),
         (''Thing'', VDict [(''@iot.id'', sid)]),
         (''ObservedProperty'', VDict
            [(''name'', VStr ''Temperature''),
             (''definition'', VStr ''http://sensorthings.org/Temperature'')]),
         (''Sensor'', VDict
            [(''name'', VStr ''Temperature Sensor''),
             (''description'', VStr ''Measures air temperature'')])])"

definition humidity_Datastream :: "(pyval \<Rightarrow> string) \<Rightarrow> row \<Rightarrow> pyval" where
  "humidity_Datastream str row =
     (let sid = row_get row ''stationId'' VNone;
          name = row_get row ''name'' (VStr [])
      in VDict
        [(''@iot.id'', VStr (str sid @ ''-humidity'')),
         (''name'', VStr (''Humidity Datastream for '' @ str name)),
         (''description'', VStr ''Humidity measurements''),
         (''unitOfMeasurement'', VDict
            [(''symbol'', VStr ''%''),
             (''name'', VStr ''Percentage''),
             (''definition'', VStr ucum_para_30)]),
         (''observationType'', VStr OM_Measurement),
         (''Thing'', VDict [(''@iot.id'', sid)]),
         (''ObservedProperty'', VDict
            [(''name'', VStr ''Humidity''),
             (''definition'', VStr ''http://sensorthings.org/Humidity'')]),
         (''Sensor'', VDict
            [(''name'', VStr ''Humidity Sensor''),
             (''description'', VStr ''Measures relative humidity'')])])"

fun DataStreamBuilder_loop :: "(pyval \<Rightarrow> string) \<Rightarrow> row list \<Rightarrow> pyval list \<Rightarrow> pyval list" where
  "DataStreamBuilder_loop str [] dstreams = dstreams"
| "DataStreamBuilder_loop str (row # df) dstreams =
     DataStreamBuilder_loop str df
       ((dstreams @ [temperature_Datastream str row]) @ [humidity_Datastream str row])"

definition DataStreamBuilder_build :: "(pyval \<Rightarrow> string) \<Rightarrow> row list \<Rightarrow> pyval list" where
  "DataStreamBuilder_build str df = DataStreamBuilder_loop str df []"

text \<open>\<open>ts.isoformat() if hasattr(ts, 'isoformat') else str(ts)\<close>\<close>

fun ts_iso_of :: "(timestamp \<Rightarrow> string) \<Rightarrow> (pyval \<Rightarrow> string) \<Rightarrow> pyval \<Rightarrow> string" where
  "ts_iso_of isoformat str (VTimestamp t) = isoformat t"
| "ts_iso_of isoformat str ts = str ts"

definition temperature_Observation ::
  "(timestamp \<Rightarrow> string) \<Rightarrow> (pyval \<Rightarrow> string) \<Rightarrow> row \<Rightarrow> pyval" where
  "temperature_Observation isoformat str row =
     (let sid = row_get row ''stationId'' VNone;
          ts = row_get row ''dateObserved'' VNone;
          ts_iso = ts_iso_of isoformat str ts
      in VDict
        [(''Datastream'', VDict [(''@iot.id'', VStr (str sid @ ''-temperature''))]),
         (''phenomenonTime'', VStr ts_iso),
         (''resultTime'', VStr ts_iso),
         (''result'', row_get row ''temperature'' VNone)])"

definition humidity_Observation ::
  "(timestamp \<Rightarrow> string) \<Rightarrow> (pyval \<Rightarrow> string) \<Rightarrow> row \<Rightarrow> pyval" where
  "humidity_Observation isoformat str row =
     (let sid = row_get row ''stationId'' VNone;
          ts = row_get row ''dateObserved'' VNone;
          ts_iso = ts_iso_of isoformat str ts
      in VDict
        [(''Datastream'', VDict [(''@iot.id'', VStr (str sid @ ''-humidity''))]),
         (''phenomenonTime'', VStr ts_iso),
         (''resultTime'', VStr ts_iso),
         (''result'', row_get row ''relativeHumidity'' VNone)])"

fun ObservationBuilder_loop ::
  "(timestamp \<Rightarrow> string) \<Rightarrow> (pyval \<Rightarrow> string) \<Rightarrow> row list \<Rightarrow> pyval list \<Rightarrow> pyval list" where
  "ObservationBuilder_loop isoformat str [] observations = observations"
| "ObservationBuilder_loop isoformat str (row # df) observations =
     ObservationBuilder_loop isoformat str df
       ((observations @ [temperature_Observation isoformat str row])
          @ [humidity_Observation isoformat str row])"

definition ObservationBuilder_build ::
  "(timestamp \<Rightarrow> string) \<Rightarrow> (pyval \<Rightarrow> string) \<Rightarrow> row list \<Rightarrow> pyval list" where
  "ObservationBuilder_build isoformat str df = ObservationBuilder_loop isoformat str df []"

section \<open>Snapshot path: client, loader and facade\<close>

text \<open>
  What \<open>requests.get\<close> returns: the status code, the body as bytes (\<open>content\<close>) and as
  text, and what the method \<open>json()\<close> gives on it. The network is a parameter
  \<open>requests_get\<close> from the URL to a response or the exception the transport raised.
\<close>

record response =
  status_code :: int
  content :: string
  response_text :: string
  json :: "exception + pyval"

text \<open>\<open>Response.raise_for_status\<close> raises for the client and server error codes.\<close>

definition raise_for_status :: "response \<Rightarrow> exception + unit" where
  "raise_for_status r =
     (if 400 \<le> status_code r \<and> status_code r < 600 then Inl (HTTPError (status_code r))
      else Inr ())"

definition SmartUrbanHeatMapClient_fetch_latest ::
  "(string \<Rightarrow> exception + response) \<Rightarrow> string \<Rightarrow> exception + string" where
  "SmartUrbanHeatMapClient_fetch_latest requests_get base_url =
     (case requests_get (base_url @ ''/latest'') of
        Inl e \<Rightarrow> Inl e
      | Inr r \<Rightarrow>
          (case raise_for_status r of
             Inl e \<Rightarrow> Inl e
           | Inr _ \<Rightarrow> Inr (response_text r)))"

text \<open>\<open>x.get(key, default)\<close>: a method of dictionaries only.\<close>

fun get_method :: "pyval \<Rightarrow> string \<Rightarrow> pyval \<Rightarrow> exception + pyval" where
  "get_method (VDict d) key dflt = Inr (case map_of d key of None \<Rightarrow> dflt | Some v \<Rightarrow> v)"
| "get_method _ key dflt = Inl AttributeError"

text \<open>
  \<open>GeoDataLoader.load\<close>; \<open>json.loads\<close> and \<open>GeoDataFrame.from_features\<close> are parameters,
  the latter from the parsed document and the name of the reference system to the rows.
\<close>

definition GeoDataLoader_load ::
  "(string \<Rightarrow> exception + pyval) \<Rightarrow> (pyval \<Rightarrow> pyval \<Rightarrow> exception + row list) \<Rightarrow>
   string \<Rightarrow> exception + row list" where
  "GeoDataLoader_load json_loads from_features geojson_str =
     (case json_loads geojson_str of
        Inl e \<Rightarrow> Inl e
      | Inr data \<Rightarrow>
          (case get_method data ''crs'' (VDict []) of
             Inl e \<Rightarrow> Inl e
           | Inr c \<Rightarrow>
               (case get_method c ''properties'' (VDict []) of
                  Inl e \<Rightarrow> Inl e
                | Inr p \<Rightarrow>
                    (case get_method p ''name'' VNone of
                       Inl e \<Rightarrow> Inl e
                     | Inr crs \<Rightarrow> from_features data crs))))"

definition default_base_url :: string where
  "default_base_url = ''https://smart-urban-heat-map.ch/api/v2''"

text \<open>\<open>base_url if base_url else default\<close>, of both facades' constructors.\<close>

definition client_url :: "string option \<Rightarrow> string" where
  "client_url base_url =
     (case base_url of
        None \<Rightarrow> default_base_url
      | Some u \<Rightarrow> if u \<noteq> [] then u else default_base_url)"

definition SensorThingsConverter_convert ::
  "(string \<Rightarrow> exception + response) \<Rightarrow> (string \<Rightarrow> exception + pyval) \<Rightarrow>
   (pyval \<Rightarrow> pyval \<Rightarrow> exception + row list) \<Rightarrow> (timestamp \<Rightarrow> string) \<Rightarrow>
   (pyval \<Rightarrow> string) \<Rightarrow> string option \<Rightarrow> exception + pyval" where
  "SensorThingsConverter_convert requests_get json_loads from_features isoformat str base_url =
     (case SmartUrbanHeatMapClient_fetch_latest requests_get (client_url base_url) of
        Inl e \<Rightarrow> Inl e
      | Inr raw \<Rightarrow>
          (case GeoDataLoader_load json_loads from_features raw of
             Inl e \<Rightarrow> Inl e
           | Inr df \<Rightarrow>
               (let things = ThingBuilder_build df
                in case LocationBuilder_build df of
                     Inl e \<Rightarrow> Inl e
                   | Inr locations \<Rightarrow> Inr (VDict
                       [(''Things'', VList things),
                        (''Locations'', VList locations),
                        (''Datastreams'', VList (DataStreamBuilder_build str df)),
                        (''Observations'', VList (ObservationBuilder_build isoformat str df))]))))"

text \<open>
  The older one-class converter (\<open>SensorThingsConverter.py\<close>): its \<open>fetch_latest\<close> reads the
  body with \<open>gpd.read_file\<close> (a parameter) when the status is 200, and otherwise prints the
  status and returns \<open>None\<close>.
\<close>

definition SensorThingsConverter_fetch_latest ::
  "(string \<Rightarrow> exception + response) \<Rightarrow> (string \<Rightarrow> exception + row list) \<Rightarrow>
   string \<Rightarrow> exception + row list option" where
  "SensorThingsConverter_fetch_latest requests_get read_file base_url =
     (case requests_get (base_url @ ''/latest'') of
        Inl e \<Rightarrow> Inl e
      | Inr r \<Rightarrow>
          if status_code r = 200
          then (case read_file (response_text r) of
                  Inl e \<Rightarrow> Inl e
                | Inr data \<Rightarrow> Inr (Some data))
          else Inr None)"

section \<open>Time-series path\<close>

definition timeseries_url :: "string \<Rightarrow> string \<Rightarrow> string option \<Rightarrow> string option \<Rightarrow> string" where
  "timeseries_url base_url station_id time_from time_to =
     (let url = base_url @ ''/timeseries?stationId='' @ station_id;
          url = (case time_from of
                   None \<Rightarrow> url
                 | Some f \<Rightarrow> if f \<noteq> [] then url @ ''&timeFrom='' @ f else url);
          url = (case time_to of
                   None \<Rightarrow> url
                 | Some t \<Rightarrow> if t \<noteq> [] then url @ ''&timeTo='' @ t else url)
      in url)"

text \<open>\<open>bytes.strip()\<close> removes ASCII whitespace at both ends.\<close>

definition is_space :: "char \<Rightarrow> bool" where
  "is_space c = (c \<in> set [CHR '' '', CHR 0x09, CHR 0x0A, CHR 0x0B, CHR 0x0C, CHR 0x0D])"

definition strip :: "string \<Rightarrow> string" where
  "strip s = rev (dropWhile is_space (rev (dropWhile is_space s)))"

text \<open>
  \<open>fetch_timeseries\<close>: status 204 or a blank body is the empty list; a body that is not
  JSON is reported and is the empty list too; any other exception goes on to the caller.
\<close>

definition fetch_timeseries ::
  "(string \<Rightarrow> exception + response) \<Rightarrow> string \<Rightarrow> string \<Rightarrow> string option \<Rightarrow> string option \<Rightarrow>
   exception + pyval" where
  "fetch_timeseries requests_get base_url station_id time_from time_to =
     (case requests_get (timeseries_url base_url station_id time_from time_to) of
        Inl e \<Rightarrow> Inl e
      | Inr r \<Rightarrow>
          if status_code r = 204 \<or> strip (content r) = [] then Inr (VList [])
          else (case json r of
                  Inl e \<Rightarrow> if e = JSONDecodeError then Inr (VList []) else Inl e
                | Inr v \<Rightarrow> Inr v))"

text \<open>\<open>ts.isoformat()\<close> on whatever \<open>pd.to_datetime\<close> returned.\<close>

fun isoformat_method :: "(timestamp \<Rightarrow> string) \<Rightarrow> pyval \<Rightarrow> exception + string" where
  "isoformat_method isoformat (VTimestamp t) = Inr (isoformat t)"
| "isoformat_method isoformat _ = Inl AttributeError"

definition timeseries_Observation :: "string \<Rightarrow> string \<Rightarrow> pyval \<Rightarrow> pyval" where
  "timeseries_Observation datastream_id ts_iso v = VDict
     [(''Datastream'', VDict [(''@iot.id'', VStr datastream_id)]),
      (''phenomenonTime'', VStr ts_iso),
      (''resultTime'', VStr ts_iso),
      (''result'', v)]"

text \<open>
  The body of the loop of \<open>TimeSeriesObservationBuilder.build\<close> on one entry, from the list
  built so far to the list after the entry. \<open>entry.get\<close> exists on dictionaries only;
  \<open>"temperature" in entry\<close> followed by \<open>entry["temperature"]\<close> is one lookup.
  \<open>pd.to_datetime\<close> is a parameter.
\<close>

fun build_entry ::
  "(pyval \<Rightarrow> exception + pyval) \<Rightarrow> (timestamp \<Rightarrow> string) \<Rightarrow> string \<Rightarrow> pyval list \<Rightarrow> pyval \<Rightarrow>
   exception + pyval list" where
  "build_entry to_datetime isoformat station_id observations (VDict entry) =
     (case to_datetime (case map_of entry ''dateObserved'' of None \<Rightarrow> VNone | Some d \<Rightarrow> d) of
        Inl e \<Rightarrow> Inl e
      | Inr ts \<Rightarrow>
          (case isoformat_method isoformat ts of
             Inl e \<Rightarrow> Inl e
           | Inr ts_iso \<Rightarrow>
               (let observations =
                      (case map_of entry ''temperature'' of
                         None \<Rightarrow> observations
                       | Some v \<Rightarrow> observations @
                           [timeseries_Observation (station_id @ ''-temperature'') ts_iso v]);
                    observations =
                      (case map_of entry ''relativeHumidity'' of
                         None \<Rightarrow> observations
                       | Some v \<Rightarrow> observations @
                           [timeseries_Observation (station_id @ ''-humidity'') ts_iso v])
                in Inr observations)))"
| "build_entry to_datetime isoformat station_id observations _ = Inl AttributeError"

fun build_loop ::
  "(pyval \<Rightarrow> exception + pyval) \<Rightarrow> (timestamp \<Rightarrow> string) \<Rightarrow> string \<Rightarrow> pyval list \<Rightarrow> pyval list \<Rightarrow>
   exception + pyval list" where
  "build_loop to_datetime isoformat station_id [] observations = Inr observations"
| "build_loop to_datetime isoformat station_id (entry # rest) observations =
     (case build_entry to_datetime isoformat station_id observations entry of
        Inl e \<Rightarrow> Inl e
      | Inr observations' \<Rightarrow> build_loop to_datetime isoformat station_id rest observations')"

text \<open>What \<open>for entry in timeseries_data\<close> iterates over.\<close>

fun py_iter :: "pyval \<Rightarrow> exception + pyval list" where
  "py_iter (VList xs) = Inr xs"
| "py_iter (VDict d) = Inr (map (\<lambda>kv. VStr (fst kv)) d)"
| "py_iter (VStr s) = Inr (map (\<lambda>c. VStr [c]) s)"
| "py_iter _ = Inl TypeError"

definition TimeSeriesObservationBuilder_build ::
  "(pyval \<Rightarrow> exception + pyval) \<Rightarrow> (timestamp \<Rightarrow> string) \<Rightarrow> string \<Rightarrow> pyval \<Rightarrow>
   exception + pyval list" where
  "TimeSeriesObservationBuilder_build to_datetime isoformat station_id timeseries_data =
     (case py_iter timeseries_data of
        Inl e \<Rightarrow> Inl e
      | Inr entries \<Rightarrow> build_loop to_datetime isoformat station_id entries [])"

text \<open>Python's truth value of a value, as \<open>not values\<close> tests it.\<close>

fun truthy :: "pyval \<Rightarrow> bool" where
  "truthy VNone = False"
| "truthy (VBool b) = b"
| "truthy (VInt i) = (i \<noteq> 0)"
| "truthy (VFloat x) = (x \<noteq> 0)"
| "truthy (VStr s) = (s \<noteq> [])"
| "truthy (VList xs) = (xs \<noteq> [])"
| "truthy (VDict d) = (d \<noteq> [])"
| "truthy _ = True"

text \<open>\<open>ts_data.get("values", []) if isinstance(ts_data, dict) else ts_data\<close>\<close>

fun values_of :: "pyval \<Rightarrow> pyval" where
  "values_of (VDict d) = (case map_of d ''values'' of None \<Rightarrow> VList [] | Some v \<Rightarrow> v)"
| "values_of ts_data = ts_data"

definition no_Observations :: pyval where
  "no_Observations = VDict [(''Observations'', VList [])]"

text \<open>The body of the \<open>try\<close> block of \<open>convert_timeseries\<close>.\<close>

definition convert_timeseries_try ::
  "(string \<Rightarrow> exception + response) \<Rightarrow> (pyval \<Rightarrow> exception + pyval) \<Rightarrow> (timestamp \<Rightarrow> string) \<Rightarrow>
   string \<Rightarrow> string \<Rightarrow> string option \<Rightarrow> string option \<Rightarrow> exception + pyval" where
  "convert_timeseries_try requests_get to_datetime isoformat url station_id time_from time_to =
     (case fetch_timeseries requests_get url station_id time_from time_to of
        Inl e \<Rightarrow> Inl e
      | Inr ts_data \<Rightarrow>
          (let values = values_of ts_data
           in if \<not> truthy values then Inr no_Observations
              else (case TimeSeriesObservationBuilder_build to_datetime isoformat station_id values of
                      Inl e \<Rightarrow> Inl e
                    | Inr observations \<Rightarrow> Inr (VDict [(''Observations'', VList observations)]))))"

definition invalid_stationId :: exception where
  "invalid_stationId =
     ValueError (''Bitte gib eine g'' @ [CHR 0xFC] @ ''ltige stationId mit --stationId an.'')"

text \<open>
  \<open>convert_timeseries\<close>: the check of the station id is before the \<open>try\<close>;
  \<open>except Exception\<close> turns every exception of the block into the empty result.
\<close>

definition convert_timeseries ::
  "(string \<Rightarrow> exception + response) \<Rightarrow> (pyval \<Rightarrow> exception + pyval) \<Rightarrow> (timestamp \<Rightarrow> string) \<Rightarrow>
   string option \<Rightarrow> string \<Rightarrow> string option \<Rightarrow> string option \<Rightarrow> exception + pyval" where
  "convert_timeseries requests_get to_datetime isoformat base_url station_id time_from time_to =
     (if station_id = [] then Inl invalid_stationId
      else (case convert_timeseries_try requests_get to_datetime isoformat (client_url base_url)
                   station_id time_from time_to of
              Inl e \<Rightarrow> Inr no_Observations
            | Inr payload \<Rightarrow> Inr payload))"

section \<open>The library functions on the values of the examples\<close>

text \<open>
  The theorems below hold for every \<open>str\<close>, \<open>isoformat\<close>, \<open>to_datetime\<close>, parser and
  network. To evaluate the converters on concrete inputs, these are the library functions
  on the values the examples use: \<open>isoformat\<close> of \<open>NaT\<close> and of a timestamp with whole
  seconds, \<open>str\<close> of a string, \<open>None\<close> and the booleans (the value of \<open>example_str\<close> on
  anything else is not Python's and is not used), and \<open>pd.to_datetime\<close> on two time
  strings, the empty string and \<open>None\<close>, raising on every other argument.
\<close>

definition digit :: "nat \<Rightarrow> char" where
  "digit n = ''0123456789'' ! (n mod 10)"

definition pad2 :: "nat \<Rightarrow> string" where
  "pad2 n = [digit (n div 10), digit n]"

definition pad4 :: "nat \<Rightarrow> string" where
  "pad4 n = [digit (n div 1000), digit (n div 100), digit (n div 10), digit n]"

fun example_isoformat :: "timestamp \<Rightarrow> string" where
  "example_isoformat NaT = ''NaT''"
| "example_isoformat (Timestamp year month day hour minute second utcoffset) =
     pad4 year @ ''-'' @ pad2 month @ ''-'' @ pad2 day @ ''T'' @
     pad2 hour @ '':'' @ pad2 minute @ '':'' @ pad2 second @
     (case utcoffset of
        None \<Rightarrow> []
      | Some m \<Rightarrow> (if m < 0 then ''-'' else ''+'') @
          pad2 (nat \<bar>m\<bar> div 60) @ '':'' @ pad2 (nat \<bar>m\<bar> mod 60))"

fun example_str :: "pyval \<Rightarrow> string" where
  "example_str (VStr s) = s"
| "example_str VNone = ''None''"
| "example_str (VBool b) = (if b then ''True'' else ''False'')"
| "example_str _ = []"

fun example_to_datetime :: "pyval \<Rightarrow> exception + pyval" where
  "example_to_datetime (VStr s) =
     (if s = [] then Inr (VTimestamp NaT)
      else if s = ''2024-11-02T10:00:00Z'' then Inr (VTimestamp (Timestamp 2024 11 2 10 0 0 (Some 0)))
      else if s = ''2024-11-02T11:00:00Z'' then Inr (VTimestamp (Timestamp 2024 11 2 11 0 0 (Some 0)))
      else Inl (ValueError (''Unknown datetime string format, unable to parse: '' @ s)))"
| "example_to_datetime VNone = Inr VNone"
| "example_to_datetime v = Inl TypeError"

text \<open>
  The row of the spec's example; a row of a feature without geometry and without readings
  (\<open>None\<close> and NaN in these columns); and a row whose geometry is the empty \<open>Point\<close>.
\<close>

definition example_row :: row where
  "example_row =
     [(''stationId'', VStr ''11117''),
      (''name'', VStr ''Bundesplatz''),
      (''outdated'', VBool False),
      (''measurementsPlausible'', VBool True),
      (''geometry'', VPoint 7.44 46.95),
      (''dateObserved'', VTimestamp (Timestamp 2024 11 1 0 0 0 None)),
      (''temperature'', VFloat 21.5),
      (''relativeHumidity'', VInt 60)]"

definition example_row_bare :: row where
  "example_row_bare =
     [(''stationId'', VStr ''11118''),
      (''name'', VStr ''Wankdorf''),
      (''outdated'', VBool True),
      (''measurementsPlausible'', VBool False),
      (''geometry'', VNone),
      (''dateObserved'', VStr ''2024-11-01T00:10:00Z''),
      (''temperature'', VNaN),
      (''relativeHumidity'', VNaN)]"

definition example_row_empty_Point :: row where
  "example_row_empty_Point =
     [(''stationId'', VStr ''11119''),
      (''name'', VStr ''Breitenrain''),
      (''outdated'', VBool False),
      (''measurementsPlausible'', VBool True),
      (''geometry'', VPointEmpty),
      (''dateObserved'', VStr ''2024-11-01T00:10:00Z''),
      (''temperature'', VFloat 20.1),
      (''relativeHumidity'', VFloat 63)]"

text \<open>
  Networks and parsers for the examples: a network that answers every request with one
  status code and an empty body, one that cannot connect, one that answers 200 with a
  JSON document; a snapshot parser that yields the first two rows above, one that yields
  the example row and the row with the empty \<open>Point\<close>, and a JSON parser that rejects its
  input.
\<close>

definition example_response :: "int \<Rightarrow> string \<Rightarrow> exception + pyval \<Rightarrow> response" where
  "example_response code body parsed =
     \<lparr>status_code = code, content = body, response_text = body, json = parsed\<rparr>"

definition network_status :: "int \<Rightarrow> string \<Rightarrow> exception + response" where
  "network_status code url = Inr (example_response code [] (Inl JSONDecodeError))"

definition network_down :: "string \<Rightarrow> exception + response" where
  "network_down url = Inl ConnectionError"

definition network_json :: "pyval \<Rightarrow> string \<Rightarrow> exception + response" where
  "network_json document url = Inr (example_response 200 ''{...}'' (Inr document))"

definition example_json_loads :: "string \<Rightarrow> exception + pyval" where
  "example_json_loads s = Inr (VDict [(''type'', VStr ''FeatureCollection'')])"

definition example_from_features :: "pyval \<Rightarrow> pyval \<Rightarrow> exception + row list" where
  "example_from_features data crs = Inr [example_row, example_row_bare]"

definition empty_Point_from_features :: "pyval \<Rightarrow> pyval \<Rightarrow> exception + row list" where
  "empty_Point_from_features data crs = Inr [example_row, example_row_empty_Point]"

definition example_read_file :: "string \<Rightarrow> exception + row list" where
  "example_read_file s = Inr [example_row]"

definition failing_json_loads :: "string \<Rightarrow> exception + pyval" where
  "failing_json_loads s = Inl JSONDecodeError"

text \<open>
  The Locations \<open>LocationBuilder.build\<close> appends for one row: what its loop returns on that
  row alone (nothing when it raises).
\<close>

definition row_Locations :: "row \<Rightarrow> pyval list" where
  "row_Locations row =
     (case LocationBuilder_loop [row] [] of
        Inl e \<Rightarrow> []
      | Inr locations \<Rightarrow> locations)"

text \<open>
  The observations the loop body of \<open>TimeSeriesObservationBuilder.build\<close> appends for one
  entry: what \<open>build_entry\<close> returns from the empty list (nothing when it raises).
\<close>

definition entry_Observations ::
  "(pyval \<Rightarrow> exception + pyval) \<Rightarrow> (timestamp \<Rightarrow> string) \<Rightarrow> string \<Rightarrow> pyval \<Rightarrow> pyval list" where
  "entry_Observations to_datetime isoformat station_id entry =
     (case build_entry to_datetime isoformat station_id [] entry of
        Inl e \<Rightarrow> []
      | Inr observations \<Rightarrow> observations)"

text \<open>
  Two time-series entries with a parseable time, one whose time is not a date, one whose
  time is the empty string, and one without a time.
\<close>

definition entry_temperature_only :: pyval where
  "entry_temperature_only =
     VDict [(''dateObserved'', VStr ''2024-11-02T10:00:00Z''), (''temperature'', VFloat 18.2)]"

definition entry_both :: pyval where
  "entry_both =
     VDict [(''dateObserved'', VStr ''2024-11-02T11:00:00Z''), (''temperature'', VFloat 18.9),
            (''relativeHumidity'', VInt 57)]"

definition entry_bad_date :: pyval where
  "entry_bad_date =
     VDict [(''dateObserved'', VStr ''yesterday-ish''), (''temperature'', VFloat 17.0)]"

definition entry_empty_date :: pyval where
  "entry_empty_date =
     VDict [(''dateObserved'', VStr []), (''temperature'', VFloat 16.4)]"

definition entry_no_date :: pyval where
  "entry_no_date = VDict [(''relativeHumidity'', VInt 71)]"

section \<open>The builders as maps over the rows\<close>

text \<open>
  Each append loop returns the list it was given followed by the entities of the
  remaining rows, in row order.
\<close>

lemma nth_pairs:
  "i < length xs \<Longrightarrow>
   concat (map (\<lambda>x. [f x, g x]) xs) ! (2 * i) = f (xs ! i) \<and>
   concat (map (\<lambda>x. [f x, g x]) xs) ! (2 * i + 1) = g (xs ! i)"
proof (induction xs arbitrary: i)
  case Nil
  then show ?case by simp
next
  case (Cons x xs)
  show ?case
  proof (cases i)
    case 0
    then show ?thesis by simp
  next
    case (Suc j)
    with Cons.prems have "j < length xs" by simp
    from Cons.IH [OF this] Suc show ?thesis by simp
  qed
qed

lemma length_pairs: "length (concat (map (\<lambda>x. [f x, g x]) xs)) = 2 * length xs"
  by (induction xs) simp_all

lemma ThingBuilder_loop_eq: "ThingBuilder_loop df things = things @ map Thing_entity df"
  by (induction df arbitrary: things) simp_all

lemma DataStreamBuilder_loop_eq:
  "DataStreamBuilder_loop str df dstreams =
   dstreams @ concat (map (\<lambda>row. [temperature_Datastream str row, humidity_Datastream str row]) df)"
  by (induction df arbitrary: dstreams) simp_all

lemma ObservationBuilder_loop_eq:
  "ObservationBuilder_loop isoformat str df observations =
   observations @ concat (map (\<lambda>row. [temperature_Observation isoformat str row,
                                         humidity_Observation isoformat str row]) df)"
  by (induction df arbitrary: observations) simp_all

lemma DataStreamBuilder_build_eq:
  "DataStreamBuilder_build str df =
   concat (map (\<lambda>row. [temperature_Datastream str row, humidity_Datastream str row]) df)"
  by (simp add: DataStreamBuilder_build_def DataStreamBuilder_loop_eq)

lemma ObservationBuilder_build_eq:
  "ObservationBuilder_build isoformat str df =
   concat (map (\<lambda>row. [temperature_Observation isoformat str row,
                        humidity_Observation isoformat str row]) df)"
  by (simp add: ObservationBuilder_build_def ObservationBuilder_loop_eq)

lemma ThingBuilder_build_eq: "ThingBuilder_build df = map Thing_entity df"
  by (simp add: ThingBuilder_build_def ThingBuilder_loop_eq)

text \<open>
  The Location loop: what one row contributes, that the loop returns the contributions in
  row order when no row holds the empty \<open>Point\<close>, and that it raises when one does.
\<close>

lemma row_Locations_cases:
  "row_Locations row =
     (case row_get row ''geometry'' VNone of
        VPoint x y \<Rightarrow> [Location_entity row (VList [VFloat x, VFloat y])]
      | _ \<Rightarrow> [])"
  by (cases "row_get row ''geometry'' VNone") (simp_all add: row_Locations_def Let_def)

lemma length_row_Locations:
  assumes "row_get row ''geometry'' VNone \<noteq> VPointEmpty"
  shows "length (row_Locations row) =
     (if isinstance_Point (row_get row ''geometry'' VNone) then 1 else 0)"
  using assms by (cases "row_get row ''geometry'' VNone") (simp_all add: row_Locations_cases)

lemma row_Locations_id:
  "map (\<lambda>l. getitem l ''@iot.id'') (row_Locations row) =
   map (\<lambda>l. Some (row_get row ''stationId'' VNone)) (row_Locations row)"
  by (cases "row_get row ''geometry'' VNone")
    (simp_all add: row_Locations_cases Location_entity_def)

lemma LocationBuilder_loop_returns:
  assumes "\<forall>row \<in> set df. row_get row ''geometry'' VNone \<noteq> VPointEmpty"
  shows "LocationBuilder_loop df locations = Inr (locations @ concat (map row_Locations df))"
  using assms
proof (induction df arbitrary: locations)
  case Nil
  then show ?case by simp
next
  case (Cons row df)
  from Cons.prems have rest: "\<forall>row \<in> set df. row_get row ''geometry'' VNone \<noteq> VPointEmpty"
    and this_row: "row_get row ''geometry'' VNone \<noteq> VPointEmpty"
    by simp_all
  from this_row show ?case
    by (cases "row_get row ''geometry'' VNone")
      (simp_all add: Cons.IH [OF rest] row_Locations_cases Let_def)
qed

lemma LocationBuilder_loop_raises:
  assumes "row \<in> set df" and "row_get row ''geometry'' VNone = VPointEmpty"
  shows "LocationBuilder_loop df locations = Inl GeometryError"
  using assms
proof (induction df arbitrary: locations)
  case Nil
  then show ?case by simp
next
  case (Cons first df)
  show ?case
  proof (cases "row_get first ''geometry'' VNone = VPointEmpty")
    case True
    then show ?thesis by (simp add: Let_def)
  next
    case False
    with Cons.prems have "row \<in> set df" by auto
    from Cons.IH [OF this Cons.prems(2)] False show ?thesis
      by (cases "row_get first ''geometry'' VNone") (simp_all add: Let_def)
  qed
qed

lemma LocationBuilder_build_returns:
  assumes "\<forall>row \<in> set df. row_get row ''geometry'' VNone \<noteq> VPointEmpty"
  shows "LocationBuilder_build df = Inr (concat (map row_Locations df))"
  using LocationBuilder_loop_returns [OF assms, of "[]"] by (simp add: LocationBuilder_build_def)

lemma LocationBuilder_build_result:
  assumes "LocationBuilder_build df = Inr locations"
  shows "(\<forall>row \<in> set df. row_get row ''geometry'' VNone \<noteq> VPointEmpty) \<and>
     locations = concat (map row_Locations df)"
proof -
  have no_empty: "\<forall>row \<in> set df. row_get row ''geometry'' VNone \<noteq> VPointEmpty"
  proof (intro ballI notI)
    fix row assume "row \<in> set df" and "row_get row ''geometry'' VNone = VPointEmpty"
    from LocationBuilder_loop_raises [OF this, of "[]"] assms show False
      by (simp add: LocationBuilder_build_def)
  qed
  with LocationBuilder_build_returns [OF no_empty] assms show ?thesis by simp
qed

section \<open>Snapshot path: Datastreams and Observations\<close>

text \<open>
  Claim C2. For every row set, \<open>DataStreamBuilder.build\<close> returns exactly two Datastreams
  per row, so \<open>2 * rowCount\<close> entities: for row \<open>i\<close> one with id
  \<open>"{stationId}-temperature"\<close> and then one with id \<open>"{stationId}-humidity"\<close>, each
  referencing the Thing by the row's \<open>stationId\<close>. Nothing of this depends on the
  \<open>temperature\<close> or \<open>relativeHumidity\<close> column of the row.
\<close>

theorem DataStreamBuilder_two_per_row:
  "length (DataStreamBuilder_build str df) = 2 * length df \<and>
   (\<forall>i < length df.
      getitem (DataStreamBuilder_build str df ! (2 * i)) ''@iot.id'' =
        Some (VStr (str (row_get (df ! i) ''stationId'' VNone) @ ''-temperature'')) \<and>
      getitem (DataStreamBuilder_build str df ! (2 * i)) ''Thing'' =
        Some (VDict [(''@iot.id'', row_get (df ! i) ''stationId'' VNone)]) \<and>
      getitem (DataStreamBuilder_build str df ! (2 * i + 1)) ''@iot.id'' =
        Some (VStr (str (row_get (df ! i) ''stationId'' VNone) @ ''-humidity'')) \<and>
      getitem (DataStreamBuilder_build str df ! (2 * i + 1)) ''Thing'' =
        Some (VDict [(''@iot.id'', row_get (df ! i) ''stationId'' VNone)]))"
proof (intro conjI allI impI)
  show "length (DataStreamBuilder_build str df) = 2 * length df"
    by (simp add: DataStreamBuilder_build_eq length_pairs)
next
  fix i assume i: "i < length df"
  note n = nth_pairs [OF i, of "temperature_Datastream str" "humidity_Datastream str"]
  show "getitem (DataStreamBuilder_build str df ! (2 * i)) ''@iot.id'' =
        Some (VStr (str (row_get (df ! i) ''stationId'' VNone) @ ''-temperature''))"
    using n by (simp add: DataStreamBuilder_build_eq temperature_Datastream_def Let_def)
  show "getitem (DataStreamBuilder_build str df ! (2 * i)) ''Thing'' =
        Some (VDict [(''@iot.id'', row_get (df ! i) ''stationId'' VNone)])"
    using n by (simp add: DataStreamBuilder_build_eq temperature_Datastream_def Let_def)
  show "getitem (DataStreamBuilder_build str df ! (2 * i + 1)) ''@iot.id'' =
        Some (VStr (str (row_get (df ! i) ''stationId'' VNone) @ ''-humidity''))"
    using n by (simp add: DataStreamBuilder_build_eq humidity_Datastream_def Let_def)
  show "getitem (DataStreamBuilder_build str df ! (2 * i + 1)) ''Thing'' =
        Some (VDict [(''@iot.id'', row_get (df ! i) ''stationId'' VNone)])"
    using n by (simp add: DataStreamBuilder_build_eq humidity_Datastream_def Let_def)
qed

text \<open>
  At two rows, the second without readings: four Datastreams, the third and fourth those
  of station 11118.
\<close>

theorem DataStreamBuilder_two_per_row_witness:
  "length (DataStreamBuilder_build example_str [example_row, example_row_bare]) = 4 \<and>
   getitem (DataStreamBuilder_build example_str [example_row, example_row_bare] ! 2) ''@iot.id'' =
     Some (VStr ''11118-temperature'') \<and>
   getitem (DataStreamBuilder_build example_str [example_row, example_row_bare] ! 3) ''@iot.id'' =
     Some (VStr ''11118-humidity'') \<and>
   getitem (DataStreamBuilder_build example_str [example_row, example_row_bare] ! 3) ''Thing'' =
     Some (VDict [(''@iot.id'', VStr ''11118'')])"
  using DataStreamBuilder_two_per_row [of example_str "[example_row, example_row_bare]", THEN conjunct1]
    DataStreamBuilder_two_per_row [of example_str "[example_row, example_row_bare]", THEN conjunct2,
      rule_format, of 1]
  by (simp add: example_row_bare_def row_get_def)

text \<open>
  Claim C3. For every row set, the snapshot \<open>ObservationBuilder.build\<close> returns exactly two
  Observations per row, whether or not the row has readings: for row \<open>i\<close> one referencing
  \<open>"{stationId}-temperature"\<close> with the row's \<open>temperature\<close> as result (\<open>None\<close> when
  absent) and then one referencing \<open>"{stationId}-humidity"\<close> with the row's
  \<open>relativeHumidity\<close>. In both, \<open>phenomenonTime\<close> equals \<open>resultTime\<close>, which is
  \<open>isoformat\<close> of the row's \<open>dateObserved\<close> when that is a timestamp and \<open>str\<close> of it
  otherwise.
\<close>

theorem ObservationBuilder_two_per_row:
  "length (ObservationBuilder_build isoformat str df) = 2 * length df \<and>
   (\<forall>i < length df.
      getitem (ObservationBuilder_build isoformat str df ! (2 * i)) ''Datastream'' =
        Some (VDict [(''@iot.id'', VStr (str (row_get (df ! i) ''stationId'' VNone) @ ''-temperature''))]) \<and>
      getitem (ObservationBuilder_build isoformat str df ! (2 * i)) ''result'' =
        Some (row_get (df ! i) ''temperature'' VNone) \<and>
      getitem (ObservationBuilder_build isoformat str df ! (2 * i + 1)) ''Datastream'' =
        Some (VDict [(''@iot.id'', VStr (str (row_get (df ! i) ''stationId'' VNone) @ ''-humidity''))]) \<and>
      getitem (ObservationBuilder_build isoformat str df ! (2 * i + 1)) ''result'' =
        Some (row_get (df ! i) ''relativeHumidity'' VNone) \<and>
      (\<forall>j \<in> {2 * i, 2 * i + 1}.
         getitem (ObservationBuilder_build isoformat str df ! j) ''phenomenonTime'' =
           getitem (ObservationBuilder_build isoformat str df ! j) ''resultTime'' \<and>
         getitem (ObservationBuilder_build isoformat str df ! j) ''resultTime'' =
           Some (VStr (case row_get (df ! i) ''dateObserved'' VNone of
                         VTimestamp t \<Rightarrow> isoformat t
                       | ts \<Rightarrow> str ts))))"
proof (intro conjI allI impI ballI)
  show "length (ObservationBuilder_build isoformat str df) = 2 * length df"
    by (simp add: ObservationBuilder_build_eq length_pairs)
next
  fix i assume i: "i < length df"
  note n = nth_pairs [OF i, of "temperature_Observation isoformat str"
                               "humidity_Observation isoformat str"]
  have iso: "ts_iso_of isoformat str v = (case v of VTimestamp t \<Rightarrow> isoformat t | ts \<Rightarrow> str ts)" for v
    by (cases v) simp_all
  show "getitem (ObservationBuilder_build isoformat str df ! (2 * i)) ''Datastream'' =
        Some (VDict [(''@iot.id'', VStr (str (row_get (df ! i) ''stationId'' VNone) @ ''-temperature''))])"
    using n by (simp add: ObservationBuilder_build_eq temperature_Observation_def Let_def)
  show "getitem (ObservationBuilder_build isoformat str df ! (2 * i)) ''result'' =
        Some (row_get (df ! i) ''temperature'' VNone)"
    using n by (simp add: ObservationBuilder_build_eq temperature_Observation_def Let_def)
  show "getitem (ObservationBuilder_build isoformat str df ! (2 * i + 1)) ''Datastream'' =
        Some (VDict [(''@iot.id'', VStr (str (row_get (df ! i) ''stationId'' VNone) @ ''-humidity''))])"
    using n by (simp add: ObservationBuilder_build_eq humidity_Observation_def Let_def)
  show "getitem (ObservationBuilder_build isoformat str df ! (2 * i + 1)) ''result'' =
        Some (row_get (df ! i) ''relativeHumidity'' VNone)"
    using n by (simp add: ObservationBuilder_build_eq humidity_Observation_def Let_def)
  fix j assume j: "j \<in> {2 * i, 2 * i + 1}"
  show "getitem (ObservationBuilder_build isoformat str df ! j) ''phenomenonTime'' =
        getitem (ObservationBuilder_build isoformat str df ! j) ''resultTime''"
    using n j by (auto simp add: ObservationBuilder_build_eq temperature_Observation_def
        humidity_Observation_def Let_def)
  show "getitem (ObservationBuilder_build isoformat str df ! j) ''resultTime'' =
        Some (VStr (case row_get (df ! i) ''dateObserved'' VNone of
                      VTimestamp t \<Rightarrow> isoformat t
                    | ts \<Rightarrow> str ts))"
    using n j by (auto simp add: ObservationBuilder_build_eq temperature_Observation_def
        humidity_Observation_def Let_def iso)
qed

theorem ObservationBuilder_two_per_row_witness:
  "ObservationBuilder_build example_isoformat example_str [example_row] =
     [VDict [(''Datastream'', VDict [(''@iot.id'', VStr ''11117-temperature'')]),
             (''phenomenonTime'', VStr ''2024-11-01T00:00:00''),
             (''resultTime'', VStr ''2024-11-01T00:00:00''),
             (''result'', VFloat 21.5)],
      VDict [(''Datastream'', VDict [(''@iot.id'', VStr ''11117-humidity'')]),
             (''phenomenonTime'', VStr ''2024-11-01T00:00:00''),
             (''resultTime'', VStr ''2024-11-01T00:00:00''),
             (''result'', VInt 60)]] \<and>
   length (ObservationBuilder_build example_isoformat example_str [example_row, example_row_bare]) = 4 \<and>
   getitem (ObservationBuilder_build example_isoformat example_str [example_row, example_row_bare] ! 2)
     ''result'' = Some VNaN \<and>
   getitem (ObservationBuilder_build example_isoformat example_str [example_row, example_row_bare] ! 3)
     ''resultTime'' = Some (VStr ''2024-11-01T00:10:00Z'')"
proof -
  let ?df = "[example_row, example_row_bare]"
  note inst = ObservationBuilder_two_per_row [of example_isoformat example_str ?df]
  have one: "ObservationBuilder_build example_isoformat example_str [example_row] =
     [VDict [(''Datastream'', VDict [(''@iot.id'', VStr ''11117-temperature'')]),
             (''phenomenonTime'', VStr ''2024-11-01T00:00:00''),
             (''resultTime'', VStr ''2024-11-01T00:00:00''),
             (''result'', VFloat 21.5)],
      VDict [(''Datastream'', VDict [(''@iot.id'', VStr ''11117-humidity'')]),
             (''phenomenonTime'', VStr ''2024-11-01T00:00:00''),
             (''resultTime'', VStr ''2024-11-01T00:00:00''),
             (''result'', VInt 60)]]"
    by (simp add: example_row_def row_get_def pad2_def pad4_def digit_def
        ObservationBuilder_build_def temperature_Observation_def humidity_Observation_def Let_def)
  have len: "length (ObservationBuilder_build example_isoformat example_str ?df) = 4"
    using inst [THEN conjunct1] by simp
  have res: "getitem (ObservationBuilder_build example_isoformat example_str ?df ! 2) ''result'' = Some VNaN"
    using inst [THEN conjunct2, rule_format, of 1] by (simp add: example_row_bare_def row_get_def)
  have tm: "getitem (ObservationBuilder_build example_isoformat example_str ?df ! 3) ''resultTime'' =
      Some (VStr ''2024-11-01T00:10:00Z'')"
    using inst [THEN conjunct2, rule_format, of 1] by (simp add: example_row_bare_def row_get_def)
  from one len res tm show ?thesis by blast
qed

section \<open>Snapshot path: Things and Locations\<close>


lemma ids_concat_row_Locations:
  assumes "\<forall>row \<in> set df. row_get row ''geometry'' VNone \<noteq> VPointEmpty"
  shows "map (\<lambda>l. getitem l ''@iot.id'') (concat (map row_Locations df)) =
     map (\<lambda>row. Some (row_get row ''stationId'' VNone))
       (filter (\<lambda>row. isinstance_Point (row_get row ''geometry'' VNone)) df)"
  using assms
proof (induction df)
  case Nil
  then show ?case by simp
next
  case (Cons row df)
  from Cons.prems have "row_get row ''geometry'' VNone \<noteq> VPointEmpty" by simp
  then have "map (\<lambda>l. getitem l ''@iot.id'') (row_Locations row) =
      (if isinstance_Point (row_get row ''geometry'' VNone)
       then [Some (row_get row ''stationId'' VNone)] else [])"
    by (cases "row_get row ''geometry'' VNone")
      (simp_all add: row_Locations_cases Location_entity_def)
  with Cons show ?case by simp
qed


lemma example_geometries:
  "\<not> isinstance_Point (row_get example_row_bare ''geometry'' VNone)"
  "isinstance_Point (row_get example_row ''geometry'' VNone)"
  "row_get example_row_bare ''geometry'' VNone \<noteq> VPointEmpty"
  "row_get example_row ''geometry'' VNone \<noteq> VPointEmpty"
  by (simp_all add: example_row_bare_def example_row_def row_get_def)



section \<open>Snapshot path: the assembled result\<close>

lemma convert_success:
  assumes "SmartUrbanHeatMapClient_fetch_latest requests_get (client_url base_url) = Inr raw"
    and "GeoDataLoader_load json_loads from_features raw = Inr df"
    and "LocationBuilder_build df = Inr locations"
  shows "SensorThingsConverter_convert requests_get json_loads from_features isoformat str base_url =
     Inr (VDict
       [(''Things'', VList (ThingBuilder_build df)),
        (''Locations'', VList locations),
        (''Datastreams'', VList (DataStreamBuilder_build str df)),
        (''Observations'', VList (ObservationBuilder_build isoformat str df))])"
  using assms by (simp add: SensorThingsConverter_convert_def)

lemma convert_result:
  assumes "SensorThingsConverter_convert requests_get json_loads from_features isoformat str base_url =
     Inr result"
  shows "\<exists>raw df locations.
     SmartUrbanHeatMapClient_fetch_latest requests_get (client_url base_url) = Inr raw \<and>
     GeoDataLoader_load json_loads from_features raw = Inr df \<and>
     LocationBuilder_build df = Inr locations \<and>
     result = VDict
       [(''Things'', VList (ThingBuilder_build df)),
        (''Locations'', VList locations),
        (''Datastreams'', VList (DataStreamBuilder_build str df)),
        (''Observations'', VList (ObservationBuilder_build isoformat str df))]"
  using assms by (auto simp add: SensorThingsConverter_convert_def split: sum.splits)

lemma Observation_has_Datastream:
  assumes "ob \<in> set (ObservationBuilder_build isoformat str df)"
  shows "\<exists>ds \<in> set (DataStreamBuilder_build str df). \<exists>ident.
     getitem ob ''Datastream'' = Some (VDict [(''@iot.id'', ident)]) \<and>
     getitem ds ''@iot.id'' = Some ident"
proof -
  from assms obtain row where row: "row \<in> set df"
    and ob: "ob = temperature_Observation isoformat str row \<or> ob = humidity_Observation isoformat str row"
    by (auto simp add: ObservationBuilder_build_eq)
  from ob show ?thesis
  proof
    assume t: "ob = temperature_Observation isoformat str row"
    have "temperature_Datastream str row \<in> set (DataStreamBuilder_build str df)"
      using row by (auto simp add: DataStreamBuilder_build_eq)
    moreover have "getitem ob ''Datastream'' =
        Some (VDict [(''@iot.id'', VStr (str (row_get row ''stationId'' VNone) @ ''-temperature''))])"
      by (simp add: t temperature_Observation_def Let_def)
    moreover have "getitem (temperature_Datastream str row) ''@iot.id'' =
        Some (VStr (str (row_get row ''stationId'' VNone) @ ''-temperature''))"
      by (simp add: temperature_Datastream_def Let_def)
    ultimately show ?thesis by blast
  next
    assume h: "ob = humidity_Observation isoformat str row"
    have "humidity_Datastream str row \<in> set (DataStreamBuilder_build str df)"
      using row by (auto simp add: DataStreamBuilder_build_eq)
    moreover have "getitem ob ''Datastream'' =
        Some (VDict [(''@iot.id'', VStr (str (row_get row ''stationId'' VNone) @ ''-humidity''))])"
      by (simp add: h humidity_Observation_def Let_def)
    moreover have "getitem (humidity_Datastream str row) ''@iot.id'' =
        Some (VStr (str (row_get row ''stationId'' VNone) @ ''-humidity''))"
      by (simp add: humidity_Datastream_def Let_def)
    ultimately show ?thesis by blast
  qed
qed

lemma example_fetch_latest:
  "SmartUrbanHeatMapClient_fetch_latest (network_json (VDict [])) (client_url None) = Inr ''{...}''"
  by (simp add: SmartUrbanHeatMapClient_fetch_latest_def network_json_def example_response_def
      raise_for_status_def)

lemma example_load:
  "GeoDataLoader_load example_json_loads example_from_features ''{...}'' =
   Inr [example_row, example_row_bare]"
  by (simp add: GeoDataLoader_load_def example_json_loads_def example_from_features_def)

lemma example_Locations:
  "LocationBuilder_build [example_row, example_row_bare] =
   Inr [Location_entity example_row (VList [VFloat 7.44, VFloat 46.95])]"
  by (simp add: LocationBuilder_build_def example_row_def example_row_bare_def row_get_def
      Location_entity_def Let_def)

text \<open>
  Claim C9. In every result of the snapshot conversion, every Observation's Datastream
  reference is the \<open>@iot.id\<close> of a Datastream of the same result. This holds for the two
  builders on any one row set, and so for whatever \<open>convert\<close> returns.
\<close>

theorem Observation_references_resolve:
  "(\<forall>ob \<in> set (ObservationBuilder_build isoformat str df).
      \<exists>ds \<in> set (DataStreamBuilder_build str df). \<exists>ident.
        getitem ob ''Datastream'' = Some (VDict [(''@iot.id'', ident)]) \<and>
        getitem ds ''@iot.id'' = Some ident) \<and>
   (\<forall>result.
      SensorThingsConverter_convert requests_get json_loads from_features isoformat str base_url =
        Inr result \<longrightarrow>
      (\<exists>datastreams observations.
         getitem result ''Datastreams'' = Some (VList datastreams) \<and>
         getitem result ''Observations'' = Some (VList observations) \<and>
         (\<forall>ob \<in> set observations. \<exists>ds \<in> set datastreams. \<exists>ident.
            getitem ob ''Datastream'' = Some (VDict [(''@iot.id'', ident)]) \<and>
            getitem ds ''@iot.id'' = Some ident)))"
proof (intro conjI allI impI)
  show "\<forall>ob \<in> set (ObservationBuilder_build isoformat str df).
      \<exists>ds \<in> set (DataStreamBuilder_build str df). \<exists>ident.
        getitem ob ''Datastream'' = Some (VDict [(''@iot.id'', ident)]) \<and>
        getitem ds ''@iot.id'' = Some ident"
    using Observation_has_Datastream by blast
next
  fix result
  assume "SensorThingsConverter_convert requests_get json_loads from_features isoformat str base_url =
        Inr result"
  from convert_result [OF this] obtain raw rows locations where
    res: "result = VDict
       [(''Things'', VList (ThingBuilder_build rows)),
        (''Locations'', VList locations),
        (''Datastreams'', VList (DataStreamBuilder_build str rows)),
        (''Observations'', VList (ObservationBuilder_build isoformat str rows))]"
    by blast
  have "getitem result ''Datastreams'' = Some (VList (DataStreamBuilder_build str rows))"
    and "getitem result ''Observations'' = Some (VList (ObservationBuilder_build isoformat str rows))"
    by (simp_all add: res)
  moreover have "\<forall>ob \<in> set (ObservationBuilder_build isoformat str rows).
      \<exists>ds \<in> set (DataStreamBuilder_build str rows). \<exists>ident.
        getitem ob ''Datastream'' = Some (VDict [(''@iot.id'', ident)]) \<and>
        getitem ds ''@iot.id'' = Some ident"
    using Observation_has_Datastream by blast
  ultimately show "\<exists>datastreams observations.
         getitem result ''Datastreams'' = Some (VList datastreams) \<and>
         getitem result ''Observations'' = Some (VList observations) \<and>
         (\<forall>ob \<in> set observations. \<exists>ds \<in> set datastreams. \<exists>ident.
            getitem ob ''Datastream'' = Some (VDict [(''@iot.id'', ident)]) \<and>
            getitem ds ''@iot.id'' = Some ident)"
    by blast
qed

text \<open>
  On the example snapshot \<open>convert\<close> returns a result, and the humidity Observation of the
  row without readings refers to a Datastream of that result.
\<close>

theorem Observation_references_resolve_witness:
  "(\<exists>result datastreams observations.
      SensorThingsConverter_convert (network_json (VDict [])) example_json_loads
        example_from_features example_isoformat example_str None = Inr result \<and>
      getitem result ''Datastreams'' = Some (VList datastreams) \<and>
      getitem result ''Observations'' = Some (VList observations) \<and>
      (\<forall>ob \<in> set observations. \<exists>ds \<in> set datastreams. \<exists>ident.
         getitem ob ''Datastream'' = Some (VDict [(''@iot.id'', ident)]) \<and>
         getitem ds ''@iot.id'' = Some ident)) \<and>
   humidity_Observation example_isoformat example_str example_row_bare
     \<in> set (ObservationBuilder_build example_isoformat example_str [example_row, example_row_bare]) \<and>
   (\<exists>ds \<in> set (DataStreamBuilder_build example_str [example_row, example_row_bare]).
      getitem ds ''@iot.id'' = Some (VStr ''11118-humidity''))"
proof -
  let ?df = "[example_row, example_row_bare]"
  let ?ob = "humidity_Observation example_isoformat example_str example_row_bare"
  note inst = Observation_references_resolve [of example_isoformat example_str ?df
      "network_json (VDict [])" example_json_loads example_from_features None]
  have conv: "SensorThingsConverter_convert (network_json (VDict [])) example_json_loads
        example_from_features example_isoformat example_str None =
      Inr (VDict
       [(''Things'', VList (ThingBuilder_build ?df)),
        (''Locations'', VList [Location_entity example_row (VList [VFloat 7.44, VFloat 46.95])]),
        (''Datastreams'', VList (DataStreamBuilder_build example_str ?df)),
        (''Observations'', VList (ObservationBuilder_build example_isoformat example_str ?df))])"
    by (rule convert_success [OF example_fetch_latest example_load example_Locations])
  have mem: "?ob \<in> set (ObservationBuilder_build example_isoformat example_str ?df)"
    by (simp add: ObservationBuilder_build_eq)
  have ref: "getitem ?ob ''Datastream'' = Some (VDict [(''@iot.id'', VStr ''11118-humidity'')])"
    by (simp add: humidity_Observation_def Let_def example_row_bare_def row_get_def)
  from inst [THEN conjunct1, rule_format, OF mem] ref
  have ds: "\<exists>ds \<in> set (DataStreamBuilder_build example_str ?df).
      getitem ds ''@iot.id'' = Some (VStr ''11118-humidity'')"
    by auto
  from inst [THEN conjunct2, rule_format, OF conv] conv
  have "\<exists>result datastreams observations.
      SensorThingsConverter_convert (network_json (VDict [])) example_json_loads
        example_from_features example_isoformat example_str None = Inr result \<and>
      getitem result ''Datastreams'' = Some (VList datastreams) \<and>
      getitem result ''Observations'' = Some (VList observations) \<and>
      (\<forall>ob \<in> set observations. \<exists>ds \<in> set datastreams. \<exists>ident.
         getitem ob ''Datastream'' = Some (VDict [(''@iot.id'', ident)]) \<and>
         getitem ds ''@iot.id'' = Some ident)"
    by blast
  with mem ds show ?thesis by blast
qed

text \<open>
  Claim C10. The output order of the snapshot conversion is the row order. Every result
  \<open>convert\<close> returns holds the four collections of the loaded rows \<open>df\<close>, and for every index
  \<open>i\<close> below the number of rows: \<open>Things[i]\<close> is the Thing of row \<open>i\<close>; \<open>Datastreams[2i]\<close> and
  \<open>Datastreams[2i+1]\<close> are the temperature and then the humidity Datastream of row \<open>i\<close>;
  \<open>Observations[2i]\<close> and \<open>Observations[2i+1]\<close> are the temperature and then the humidity
  Observation of row \<open>i\<close>. The Locations are, in row order, those of the rows whose geometry
  is a point, one for each. And \<open>convert\<close> does return a result when the fetch and the loader
  succeed and no loaded row holds an empty \<open>Point\<close>.
\<close>

theorem convert_keeps_row_order:
  "(\<forall>result.
      SensorThingsConverter_convert requests_get json_loads from_features isoformat str base_url =
        Inr result \<longrightarrow>
      (\<exists>raw df things locations datastreams observations.
         SmartUrbanHeatMapClient_fetch_latest requests_get (client_url base_url) = Inr raw \<and>
         GeoDataLoader_load json_loads from_features raw = Inr df \<and>
         result = VDict [(''Things'', VList things), (''Locations'', VList locations),
                         (''Datastreams'', VList datastreams),
                         (''Observations'', VList observations)] \<and>
         length things = length df \<and>
         length datastreams = 2 * length df \<and>
         length observations = 2 * length df \<and>
         (\<forall>i < length df.
            things ! i = Thing_entity (df ! i) \<and>
            datastreams ! (2 * i) = temperature_Datastream str (df ! i) \<and>
            datastreams ! (2 * i + 1) = humidity_Datastream str (df ! i) \<and>
            observations ! (2 * i) = temperature_Observation isoformat str (df ! i) \<and>
            observations ! (2 * i + 1) = humidity_Observation isoformat str (df ! i)) \<and>
         locations = concat (map row_Locations df) \<and>
         (\<forall>row \<in> set df. length (row_Locations row) =
            (if isinstance_Point (row_get row ''geometry'' VNone) then 1 else 0)) \<and>
         map (\<lambda>l. getitem l ''@iot.id'') locations =
           map (\<lambda>row. Some (row_get row ''stationId'' VNone))
             (filter (\<lambda>row. isinstance_Point (row_get row ''geometry'' VNone)) df))) \<and>
   (\<forall>raw df.
      SmartUrbanHeatMapClient_fetch_latest requests_get (client_url base_url) = Inr raw \<and>
      GeoDataLoader_load json_loads from_features raw = Inr df \<and>
      (\<forall>row \<in> set df. row_get row ''geometry'' VNone \<noteq> VPointEmpty) \<longrightarrow>
      (\<exists>result.
         SensorThingsConverter_convert requests_get json_loads from_features isoformat str
           base_url = Inr result))"
proof (intro conjI allI impI)
  fix result
  assume "SensorThingsConverter_convert requests_get json_loads from_features isoformat str
      base_url = Inr result"
  from convert_result [OF this] obtain raw df locations where
    fetch: "SmartUrbanHeatMapClient_fetch_latest requests_get (client_url base_url) = Inr raw"
    and load: "GeoDataLoader_load json_loads from_features raw = Inr df"
    and loc: "LocationBuilder_build df = Inr locations"
    and res: "result = VDict
       [(''Things'', VList (ThingBuilder_build df)),
        (''Locations'', VList locations),
        (''Datastreams'', VList (DataStreamBuilder_build str df)),
        (''Observations'', VList (ObservationBuilder_build isoformat str df))]"
    by blast
  from LocationBuilder_build_result [OF loc]
  have no_empty: "\<forall>row \<in> set df. row_get row ''geometry'' VNone \<noteq> VPointEmpty"
    and locs: "locations = concat (map row_Locations df)"
    by simp_all
  have nth: "\<forall>i < length df.
        ThingBuilder_build df ! i = Thing_entity (df ! i) \<and>
        DataStreamBuilder_build str df ! (2 * i) = temperature_Datastream str (df ! i) \<and>
        DataStreamBuilder_build str df ! (2 * i + 1) = humidity_Datastream str (df ! i) \<and>
        ObservationBuilder_build isoformat str df ! (2 * i) =
          temperature_Observation isoformat str (df ! i) \<and>
        ObservationBuilder_build isoformat str df ! (2 * i + 1) =
          humidity_Observation isoformat str (df ! i)"
  proof (intro allI impI)
    fix i assume i: "i < length df"
    note d = nth_pairs [OF i, of "temperature_Datastream str" "humidity_Datastream str"]
    note b = nth_pairs [OF i, of "temperature_Observation isoformat str"
                                 "humidity_Observation isoformat str"]
    from i d b show "ThingBuilder_build df ! i = Thing_entity (df ! i) \<and>
        DataStreamBuilder_build str df ! (2 * i) = temperature_Datastream str (df ! i) \<and>
        DataStreamBuilder_build str df ! (2 * i + 1) = humidity_Datastream str (df ! i) \<and>
        ObservationBuilder_build isoformat str df ! (2 * i) =
          temperature_Observation isoformat str (df ! i) \<and>
        ObservationBuilder_build isoformat str df ! (2 * i + 1) =
          humidity_Observation isoformat str (df ! i)"
      by (simp add: ThingBuilder_build_eq DataStreamBuilder_build_eq ObservationBuilder_build_eq)
  qed
  have lens: "length (ThingBuilder_build df) = length df"
    "length (DataStreamBuilder_build str df) = 2 * length df"
    "length (ObservationBuilder_build isoformat str df) = 2 * length df"
    by (simp_all add: ThingBuilder_build_eq DataStreamBuilder_build_eq ObservationBuilder_build_eq
        length_pairs)
  have one: "\<forall>row \<in> set df. length (row_Locations row) =
      (if isinstance_Point (row_get row ''geometry'' VNone) then 1 else 0)"
    using no_empty length_row_Locations by blast
  have ids: "map (\<lambda>l. getitem l ''@iot.id'') locations =
      map (\<lambda>row. Some (row_get row ''stationId'' VNone))
        (filter (\<lambda>row. isinstance_Point (row_get row ''geometry'' VNone)) df)"
    unfolding locs by (rule ids_concat_row_Locations [OF no_empty])
  from fetch load res lens nth locs one ids
  show "\<exists>raw df things locations datastreams observations.
         SmartUrbanHeatMapClient_fetch_latest requests_get (client_url base_url) = Inr raw \<and>
         GeoDataLoader_load json_loads from_features raw = Inr df \<and>
         result = VDict [(''Things'', VList things), (''Locations'', VList locations),
                         (''Datastreams'', VList datastreams),
                         (''Observations'', VList observations)] \<and>
         length things = length df \<and>
         length datastreams = 2 * length df \<and>
         length observations = 2 * length df \<and>
         (\<forall>i < length df.
            things ! i = Thing_entity (df ! i) \<and>
            datastreams ! (2 * i) = temperature_Datastream str (df ! i) \<and>
            datastreams ! (2 * i + 1) = humidity_Datastream str (df ! i) \<and>
            observations ! (2 * i) = temperature_Observation isoformat str (df ! i) \<and>
            observations ! (2 * i + 1) = humidity_Observation isoformat str (df ! i)) \<and>
         locations = concat (map row_Locations df) \<and>
         (\<forall>row \<in> set df. length (row_Locations row) =
            (if isinstance_Point (row_get row ''geometry'' VNone) then 1 else 0)) \<and>
         map (\<lambda>l. getitem l ''@iot.id'') locations =
           map (\<lambda>row. Some (row_get row ''stationId'' VNone))
             (filter (\<lambda>row. isinstance_Point (row_get row ''geometry'' VNone)) df)"
    by blast
next
  fix raw df
  assume h: "SmartUrbanHeatMapClient_fetch_latest requests_get (client_url base_url) = Inr raw \<and>
      GeoDataLoader_load json_loads from_features raw = Inr df \<and>
      (\<forall>row \<in> set df. row_get row ''geometry'' VNone \<noteq> VPointEmpty)"
  then have "LocationBuilder_build df = Inr (concat (map row_Locations df))"
    using LocationBuilder_build_returns by blast
  with h convert_success [of requests_get base_url raw json_loads from_features df
      "concat (map row_Locations df)" isoformat str]
  show "\<exists>result.
         SensorThingsConverter_convert requests_get json_loads from_features isoformat str
           base_url = Inr result"
    by blast
qed

text \<open>
  On the example snapshot (the example row, then the row without geometry and readings)
  \<open>convert\<close> returns a result: its third Datastream is the temperature Datastream of the
  second row, its fourth Observation the humidity Observation of that row, and its only
  Location is that of the first row.
\<close>

theorem convert_keeps_row_order_witness:
  "\<exists>things locations datastreams observations.
     SensorThingsConverter_convert (network_json (VDict [])) example_json_loads
       example_from_features example_isoformat example_str None =
       Inr (VDict [(''Things'', VList things), (''Locations'', VList locations),
                   (''Datastreams'', VList datastreams), (''Observations'', VList observations)]) \<and>
     length things = 2 \<and> length datastreams = 4 \<and> length observations = 4 \<and>
     things ! 1 = Thing_entity example_row_bare \<and>
     datastreams ! 2 = temperature_Datastream example_str example_row_bare \<and>
     observations ! 3 = humidity_Observation example_isoformat example_str example_row_bare \<and>
     map (\<lambda>l. getitem l ''@iot.id'') locations = [Some (VStr ''11117'')]"
proof -
  let ?df = "[example_row, example_row_bare]"
  note inst = convert_keeps_row_order [of "network_json (VDict [])" example_json_loads
      example_from_features example_isoformat example_str None]
  have h: "SmartUrbanHeatMapClient_fetch_latest (network_json (VDict [])) (client_url None) =
        Inr ''{...}'' \<and>
      GeoDataLoader_load example_json_loads example_from_features ''{...}'' = Inr ?df \<and>
      (\<forall>row \<in> set ?df. row_get row ''geometry'' VNone \<noteq> VPointEmpty)"
    using example_fetch_latest example_load example_geometries by simp
  from inst [THEN conjunct2, rule_format, OF h] obtain result where
    conv: "SensorThingsConverter_convert (network_json (VDict [])) example_json_loads
       example_from_features example_isoformat example_str None = Inr result" ..
  from inst [THEN conjunct1, rule_format, OF conv]
  obtain raw df things locations datastreams observations where
    fetch: "SmartUrbanHeatMapClient_fetch_latest (network_json (VDict [])) (client_url None) =
        Inr raw"
    and load: "GeoDataLoader_load example_json_loads example_from_features raw = Inr df"
    and res: "result = VDict [(''Things'', VList things), (''Locations'', VList locations),
                   (''Datastreams'', VList datastreams), (''Observations'', VList observations)]"
    and len: "length things = length df" "length datastreams = 2 * length df"
      "length observations = 2 * length df"
    and nth: "\<forall>i < length df.
        things ! i = Thing_entity (df ! i) \<and>
        datastreams ! (2 * i) = temperature_Datastream example_str (df ! i) \<and>
        datastreams ! (2 * i + 1) = humidity_Datastream example_str (df ! i) \<and>
        observations ! (2 * i) = temperature_Observation example_isoformat example_str (df ! i) \<and>
        observations ! (2 * i + 1) = humidity_Observation example_isoformat example_str (df ! i)"
    and ids: "map (\<lambda>l. getitem l ''@iot.id'') locations =
        map (\<lambda>row. Some (row_get row ''stationId'' VNone))
          (filter (\<lambda>row. isinstance_Point (row_get row ''geometry'' VNone)) df)"
    by blast
  from fetch example_fetch_latest have "raw = ''{...}''" by simp
  with load example_load have df: "df = ?df" by simp
  have s: "row_get example_row ''stationId'' VNone = VStr ''11117''"
    by (simp add: example_row_def row_get_def)
  from nth [rule_format, of 1] df
  have "things ! 1 = Thing_entity example_row_bare"
    and "datastreams ! 2 = temperature_Datastream example_str example_row_bare"
    and "observations ! 3 = humidity_Observation example_isoformat example_str example_row_bare"
    by simp_all
  moreover from ids df example_geometries s
  have "map (\<lambda>l. getitem l ''@iot.id'') locations = [Some (VStr ''11117'')]" by simp
  moreover from len df have "length things = 2" "length datastreams = 4" "length observations = 4"
    by simp_all
  moreover from conv res
  have "SensorThingsConverter_convert (network_json (VDict [])) example_json_loads
       example_from_features example_isoformat example_str None =
       Inr (VDict [(''Things'', VList things), (''Locations'', VList locations),
                   (''Datastreams'', VList datastreams), (''Observations'', VList observations)])"
    by simp
  ultimately show ?thesis
    apply -
    apply (rule exI [of _ things], rule exI [of _ locations])
    apply (rule exI [of _ datastreams], rule exI [of _ observations])
    apply (intro conjI; assumption)
    done
qed

section \<open>Snapshot path: errors\<close>

text \<open>
  Claim C8, as the code has it. In the snapshot path of \<open>SensorThingsConverter_Latest.py\<close>,
  \<open>fetch_latest\<close> raises \<open>HTTPError\<close> whenever the status code is from 400 to 599 (the codes
  \<open>raise_for_status\<close> raises for) and returns the body on every other code, and \<open>convert\<close>
  hands every exception of the transport, of the status check, of the loader and of the
  Location builder to its caller unchanged; it returns a result only when the fetch, the
  loader and the builders all succeeded, and then the result of the four builders on the
  loaded rows. The older \<open>SensorThingsConverter.fetch_latest\<close> of \<open>SensorThingsConverter.py\<close>
  does not raise on a status other than 200: it returns \<open>None\<close>.
\<close>

theorem snapshot_errors_propagate:
  "(\<forall>e. requests_get (client_url base_url @ ''/latest'') = Inl e \<longrightarrow>
      SmartUrbanHeatMapClient_fetch_latest requests_get (client_url base_url) = Inl e) \<and>
   (\<forall>r. requests_get (client_url base_url @ ''/latest'') = Inr r \<and>
        400 \<le> status_code r \<and> status_code r < 600 \<longrightarrow>
      SmartUrbanHeatMapClient_fetch_latest requests_get (client_url base_url) =
        Inl (HTTPError (status_code r))) \<and>
   (\<forall>r. requests_get (client_url base_url @ ''/latest'') = Inr r \<and>
        \<not> (400 \<le> status_code r \<and> status_code r < 600) \<longrightarrow>
      SmartUrbanHeatMapClient_fetch_latest requests_get (client_url base_url) =
        Inr (response_text r)) \<and>
   (\<forall>e. SmartUrbanHeatMapClient_fetch_latest requests_get (client_url base_url) = Inl e \<longrightarrow>
      SensorThingsConverter_convert requests_get json_loads from_features isoformat str base_url =
        Inl e) \<and>
   (\<forall>raw e. SmartUrbanHeatMapClient_fetch_latest requests_get (client_url base_url) = Inr raw \<and>
        GeoDataLoader_load json_loads from_features raw = Inl e \<longrightarrow>
      SensorThingsConverter_convert requests_get json_loads from_features isoformat str base_url =
        Inl e) \<and>
   (\<forall>raw df e. SmartUrbanHeatMapClient_fetch_latest requests_get (client_url base_url) = Inr raw \<and>
        GeoDataLoader_load json_loads from_features raw = Inr df \<and>
        LocationBuilder_build df = Inl e \<longrightarrow>
      SensorThingsConverter_convert requests_get json_loads from_features isoformat str base_url =
        Inl e) \<and>
   (\<forall>result.
      SensorThingsConverter_convert requests_get json_loads from_features isoformat str base_url =
        Inr result \<longrightarrow>
      (\<exists>raw df locations.
         SmartUrbanHeatMapClient_fetch_latest requests_get (client_url base_url) = Inr raw \<and>
         GeoDataLoader_load json_loads from_features raw = Inr df \<and>
         LocationBuilder_build df = Inr locations \<and>
         result = VDict
           [(''Things'', VList (ThingBuilder_build df)),
            (''Locations'', VList locations),
            (''Datastreams'', VList (DataStreamBuilder_build str df)),
            (''Observations'', VList (ObservationBuilder_build isoformat str df))])) \<and>
   (\<forall>r. requests_get (client_url base_url @ ''/latest'') = Inr r \<and> status_code r \<noteq> 200 \<longrightarrow>
      SensorThingsConverter_fetch_latest requests_get read_file (client_url base_url) = Inr None)"
proof (intro conjI allI impI)
  fix e assume "requests_get (client_url base_url @ ''/latest'') = Inl e"
  then show "SmartUrbanHeatMapClient_fetch_latest requests_get (client_url base_url) = Inl e"
    by (simp add: SmartUrbanHeatMapClient_fetch_latest_def)
next
  fix r assume "requests_get (client_url base_url @ ''/latest'') = Inr r \<and>
        400 \<le> status_code r \<and> status_code r < 600"
  then show "SmartUrbanHeatMapClient_fetch_latest requests_get (client_url base_url) =
        Inl (HTTPError (status_code r))"
    by (simp add: SmartUrbanHeatMapClient_fetch_latest_def raise_for_status_def)
next
  fix r assume "requests_get (client_url base_url @ ''/latest'') = Inr r \<and>
        \<not> (400 \<le> status_code r \<and> status_code r < 600)"
  then show "SmartUrbanHeatMapClient_fetch_latest requests_get (client_url base_url) =
        Inr (response_text r)"
    by (auto simp add: SmartUrbanHeatMapClient_fetch_latest_def raise_for_status_def)
next
  fix e assume "SmartUrbanHeatMapClient_fetch_latest requests_get (client_url base_url) = Inl e"
  then show "SensorThingsConverter_convert requests_get json_loads from_features isoformat str
      base_url = Inl e"
    by (simp add: SensorThingsConverter_convert_def)
next
  fix raw e
  assume "SmartUrbanHeatMapClient_fetch_latest requests_get (client_url base_url) = Inr raw \<and>
        GeoDataLoader_load json_loads from_features raw = Inl e"
  then show "SensorThingsConverter_convert requests_get json_loads from_features isoformat str
      base_url = Inl e"
    by (simp add: SensorThingsConverter_convert_def)
next
  fix raw df e
  assume "SmartUrbanHeatMapClient_fetch_latest requests_get (client_url base_url) = Inr raw \<and>
        GeoDataLoader_load json_loads from_features raw = Inr df \<and>
        LocationBuilder_build df = Inl e"
  then show "SensorThingsConverter_convert requests_get json_loads from_features isoformat str
      base_url = Inl e"
    by (simp add: SensorThingsConverter_convert_def)
next
  fix result
  assume "SensorThingsConverter_convert requests_get json_loads from_features isoformat str
      base_url = Inr result"
  then show "\<exists>raw df locations.
         SmartUrbanHeatMapClient_fetch_latest requests_get (client_url base_url) = Inr raw \<and>
         GeoDataLoader_load json_loads from_features raw = Inr df \<and>
         LocationBuilder_build df = Inr locations \<and>
         result = VDict
           [(''Things'', VList (ThingBuilder_build df)),
            (''Locations'', VList locations),
            (''Datastreams'', VList (DataStreamBuilder_build str df)),
            (''Observations'', VList (ObservationBuilder_build isoformat str df))]"
    by (rule convert_result)
next
  fix r
  assume "requests_get (client_url base_url @ ''/latest'') = Inr r \<and> status_code r \<noteq> 200"
  then show "SensorThingsConverter_fetch_latest requests_get read_file (client_url base_url) =
      Inr None"
    by (simp add: SensorThingsConverter_fetch_latest_def)
qed

lemma example_load_empty_Point:
  "GeoDataLoader_load example_json_loads empty_Point_from_features ''{...}'' =
   Inr [example_row, example_row_empty_Point]"
  by (simp add: GeoDataLoader_load_def example_json_loads_def empty_Point_from_features_def)

lemma example_Locations_raise:
  "LocationBuilder_build [example_row, example_row_empty_Point] = Inl GeometryError"
  by (simp add: LocationBuilder_build_def example_row_def example_row_empty_Point_def
      row_get_def Let_def)

text \<open>
  A server answering 404 makes \<open>convert\<close> raise \<open>HTTPError\<close>, a network that cannot connect
  makes it raise the transport's exception, a body the JSON parser rejects makes it raise
  the parser's exception, a loaded row with the empty \<open>Point\<close> makes it raise the builder's
  exception; on status 200 \<open>fetch_latest\<close> returns the body and the example snapshot gives a
  result; and the older \<open>fetch_latest\<close> returns \<open>None\<close> on 404.
\<close>

theorem snapshot_errors_propagate_witness:
  "SensorThingsConverter_convert (network_status 404) example_json_loads example_from_features
     example_isoformat example_str None = Inl (HTTPError 404) \<and>
   SensorThingsConverter_convert network_down example_json_loads example_from_features
     example_isoformat example_str None = Inl ConnectionError \<and>
   SensorThingsConverter_convert (network_json (VDict [])) failing_json_loads example_from_features
     example_isoformat example_str None = Inl JSONDecodeError \<and>
   SensorThingsConverter_convert (network_json (VDict [])) example_json_loads
     empty_Point_from_features example_isoformat example_str None = Inl GeometryError \<and>
   SmartUrbanHeatMapClient_fetch_latest (network_json (VDict [])) (client_url None) = Inr ''{...}'' \<and>
   (\<exists>raw df locations.
      SmartUrbanHeatMapClient_fetch_latest (network_json (VDict [])) (client_url None) = Inr raw \<and>
      GeoDataLoader_load example_json_loads example_from_features raw = Inr df \<and>
      LocationBuilder_build df = Inr locations) \<and>
   SensorThingsConverter_fetch_latest (network_status 404) example_read_file (client_url None) =
     Inr None"
proof -
  have r404: "network_status 404 (client_url None @ ''/latest'') =
      Inr (example_response 404 [] (Inl JSONDecodeError))"
    by (simp add: network_status_def)
  have s404: "status_code (example_response 404 [] (Inl JSONDecodeError)) = 404"
    by (simp add: example_response_def)
  have f404: "SmartUrbanHeatMapClient_fetch_latest (network_status 404) (client_url None) =
      Inl (HTTPError 404)"
    using snapshot_errors_propagate [of "network_status 404" None, THEN conjunct2, THEN conjunct1,
        rule_format, of "example_response 404 [] (Inl JSONDecodeError)"] r404 s404
    by simp
  have a: "SensorThingsConverter_convert (network_status 404) example_json_loads
      example_from_features example_isoformat example_str None = Inl (HTTPError 404)"
    using snapshot_errors_propagate [of "network_status 404" None example_json_loads
        example_from_features example_isoformat example_str, THEN conjunct2, THEN conjunct2,
        THEN conjunct2, THEN conjunct1, rule_format, OF f404] .
  have down: "network_down (client_url None @ ''/latest'') = Inl ConnectionError"
    by (simp add: network_down_def)
  have fdown: "SmartUrbanHeatMapClient_fetch_latest network_down (client_url None) =
      Inl ConnectionError"
    using snapshot_errors_propagate [of network_down None, THEN conjunct1, rule_format, OF down] .
  have b: "SensorThingsConverter_convert network_down example_json_loads example_from_features
      example_isoformat example_str None = Inl ConnectionError"
    using snapshot_errors_propagate [of network_down None example_json_loads
        example_from_features example_isoformat example_str, THEN conjunct2, THEN conjunct2,
        THEN conjunct2, THEN conjunct1, rule_format, OF fdown] .
  have r200: "network_json (VDict []) (client_url None @ ''/latest'') =
      Inr (example_response 200 ''{...}'' (Inr (VDict [])))"
    by (simp add: network_json_def)
  have s200: "status_code (example_response 200 ''{...}'' (Inr (VDict []))) = 200"
    "response_text (example_response 200 ''{...}'' (Inr (VDict []))) = ''{...}''"
    by (simp_all add: example_response_def)
  have f200: "SmartUrbanHeatMapClient_fetch_latest (network_json (VDict [])) (client_url None) =
      Inr ''{...}''"
    using snapshot_errors_propagate [of "network_json (VDict [])" None, THEN conjunct2,
        THEN conjunct2, THEN conjunct1, rule_format,
        of "example_response 200 ''{...}'' (Inr (VDict []))"] r200 s200
    by simp
  have lfail: "GeoDataLoader_load failing_json_loads example_from_features ''{...}'' =
      Inl JSONDecodeError"
    by (simp add: GeoDataLoader_load_def failing_json_loads_def)
  have c: "SensorThingsConverter_convert (network_json (VDict [])) failing_json_loads
      example_from_features example_isoformat example_str None = Inl JSONDecodeError"
    using snapshot_errors_propagate [of "network_json (VDict [])" None failing_json_loads
        example_from_features example_isoformat example_str, THEN conjunct2, THEN conjunct2,
        THEN conjunct2, THEN conjunct2, THEN conjunct1, rule_format,
        of "''{...}''" JSONDecodeError] f200 lfail
    by simp
  have g: "SensorThingsConverter_convert (network_json (VDict [])) example_json_loads
      empty_Point_from_features example_isoformat example_str None = Inl GeometryError"
    using snapshot_errors_propagate [of "network_json (VDict [])" None example_json_loads
        empty_Point_from_features example_isoformat example_str, THEN conjunct2, THEN conjunct2,
        THEN conjunct2, THEN conjunct2, THEN conjunct2, THEN conjunct1, rule_format,
        of "''{...}''" "[example_row, example_row_empty_Point]" GeometryError]
      f200 example_load_empty_Point example_Locations_raise
    by simp
  have conv: "SensorThingsConverter_convert (network_json (VDict [])) example_json_loads
        example_from_features example_isoformat example_str None =
      Inr (VDict
       [(''Things'', VList (ThingBuilder_build [example_row, example_row_bare])),
        (''Locations'', VList [Location_entity example_row (VList [VFloat 7.44, VFloat 46.95])]),
        (''Datastreams'', VList (DataStreamBuilder_build example_str [example_row, example_row_bare])),
        (''Observations'', VList (ObservationBuilder_build example_isoformat example_str
            [example_row, example_row_bare]))])"
    by (rule convert_success [OF example_fetch_latest example_load example_Locations])
  have d: "\<exists>raw df locations.
      SmartUrbanHeatMapClient_fetch_latest (network_json (VDict [])) (client_url None) = Inr raw \<and>
      GeoDataLoader_load example_json_loads example_from_features raw = Inr df \<and>
      LocationBuilder_build df = Inr locations"
    using snapshot_errors_propagate [of "network_json (VDict [])" None example_json_loads
        example_from_features example_isoformat example_str, THEN conjunct2, THEN conjunct2,
        THEN conjunct2, THEN conjunct2, THEN conjunct2, THEN conjunct2, THEN conjunct1,
        rule_format, OF conv]
    by blast
  have e: "SensorThingsConverter_fetch_latest (network_status 404) example_read_file
      (client_url None) = Inr None"
    using snapshot_errors_propagate [of "network_status 404" None _ _ _ _ example_read_file,
        THEN conjunct2, THEN conjunct2, THEN conjunct2, THEN conjunct2, THEN conjunct2,
        THEN conjunct2, THEN conjunct2, rule_format,
        of "example_response 404 [] (Inl JSONDecodeError)"] r404 s404
    by simp
  from a b c g f200 d e show ?thesis by blast
qed

text \<open>
  Claim C8, as stated, fails: on status 404 the older \<open>fetch_latest\<close> returns \<open>None\<close> instead
  of raising, and on status 304, which is not a success status, the client's \<open>fetch_latest\<close>
  returns the (empty) body instead of raising.
\<close>

theorem fetch_latest_not_success_counterexample:
  "SensorThingsConverter_fetch_latest (network_status 404) example_read_file default_base_url =
     Inr None \<and>
   SmartUrbanHeatMapClient_fetch_latest (network_status 304) default_base_url = Inr []"
  by (simp add: SensorThingsConverter_fetch_latest_def SmartUrbanHeatMapClient_fetch_latest_def
      network_status_def example_response_def raise_for_status_def)

section \<open>Time-series path: the builder\<close>

text \<open>
  The loop body appends to the list it is given what it appends to the empty list, and
  whether it raises does not depend on that list.
\<close>

lemma build_entry_acc:
  "build_entry to_datetime isoformat station_id observations entry =
   (case build_entry to_datetime isoformat station_id [] entry of
      Inl e \<Rightarrow> Inl e
    | Inr new \<Rightarrow> Inr (observations @ new))"
  by (cases entry) (simp_all add: Let_def split: sum.splits option.splits)

lemma build_entry_parsed:
  assumes "to_datetime (case map_of d ''dateObserved'' of None \<Rightarrow> VNone | Some v \<Rightarrow> v) =
      Inr (VTimestamp t)"
  shows "build_entry to_datetime isoformat station_id [] (VDict d) = Inr
     ((case map_of d ''temperature'' of
         None \<Rightarrow> []
       | Some v \<Rightarrow> [timeseries_Observation (station_id @ ''-temperature'') (isoformat t) v]) @
      (case map_of d ''relativeHumidity'' of
         None \<Rightarrow> []
       | Some v \<Rightarrow> [timeseries_Observation (station_id @ ''-humidity'') (isoformat t) v]))"
  using assms by (simp add: Let_def split: option.splits)

lemma build_entry_unparsed:
  assumes "\<nexists>t. to_datetime (case map_of d ''dateObserved'' of None \<Rightarrow> VNone | Some v \<Rightarrow> v) =
      Inr (VTimestamp t)"
  shows "\<exists>e. build_entry to_datetime isoformat station_id observations (VDict d) = Inl e"
proof (cases "to_datetime (case map_of d ''dateObserved'' of None \<Rightarrow> VNone | Some v \<Rightarrow> v)")
  case (Inl e)
  then show ?thesis by simp
next
  case (Inr ts)
  with assms have "\<nexists>t. ts = VTimestamp t" by simp
  then have "isoformat_method isoformat ts = Inl AttributeError"
    by (cases ts) simp_all
  with Inr show ?thesis by simp
qed

lemma build_loop_all_parsed:
  assumes "\<forall>entry \<in> set entries. \<exists>new.
      build_entry to_datetime isoformat station_id [] entry = Inr new"
  shows "build_loop to_datetime isoformat station_id entries observations =
     Inr (observations @
          concat (map (entry_Observations to_datetime isoformat station_id) entries))"
  using assms
proof (induction entries arbitrary: observations)
  case Nil
  then show ?case by simp
next
  case (Cons entry rest)
  from Cons.prems obtain new where
    new: "build_entry to_datetime isoformat station_id [] entry = Inr new"
    by auto
  then have step: "build_entry to_datetime isoformat station_id observations entry =
      Inr (observations @ new)"
    by (subst build_entry_acc) simp
  from new have eo: "entry_Observations to_datetime isoformat station_id entry = new"
    by (simp add: entry_Observations_def)
  from Cons.prems have "\<forall>entry \<in> set rest. \<exists>new.
      build_entry to_datetime isoformat station_id [] entry = Inr new"
    by simp
  from Cons.IH [OF this, of "observations @ new"] step eo show ?case by simp
qed

lemma build_loop_raises:
  assumes "entry \<in> set entries"
    and "build_entry to_datetime isoformat station_id [] entry = Inl e"
  shows "\<exists>e'. build_loop to_datetime isoformat station_id entries observations = Inl e'"
  using assms
proof (induction entries arbitrary: observations)
  case Nil
  then show ?case by simp
next
  case (Cons first rest)
  show ?case
  proof (cases "build_entry to_datetime isoformat station_id observations first")
    case (Inl x)
    then show ?thesis by simp
  next
    case (Inr observations')
    then have "first \<noteq> entry"
      using Cons.prems(2) by (subst (asm) build_entry_acc) (auto split: sum.splits)
    with Cons.prems have "entry \<in> set rest" by simp
    from Cons.IH [OF this Cons.prems(2), of observations'] Inr show ?thesis by simp
  qed
qed

lemma map_of_Some_iff_key: "(\<exists>v. map_of d k = Some v) \<longleftrightarrow> k \<in> fst ` set d"
  by (metis map_of_eq_None_iff not_None_eq)

lemma getitem_timeseries_Observation:
  "getitem (timeseries_Observation ident ts_iso v) ''Datastream'' =
   Some (VDict [(''@iot.id'', VStr ident)])"
  by (simp add: timeseries_Observation_def)

text \<open>
  Claim C4, as the code has it. For every entry list in which every entry is a dictionary
  on whose \<open>dateObserved\<close> \<open>pd.to_datetime\<close> returns a value with an \<open>isoformat\<close> method (a
  timestamp or \<open>NaT\<close>), \<open>TimeSeriesObservationBuilder.build\<close> returns, in entry order, the
  Observations of each entry, and for every entry these hold a temperature Observation if
  and only if the entry has a \<open>temperature\<close> field and a humidity Observation if and only if
  it has a \<open>relativeHumidity\<close> field, and nothing else. An entry with only a temperature
  field so gives exactly one Observation.
\<close>

theorem timeseries_Observation_iff_field:
  assumes "\<forall>entry \<in> set entries. \<exists>d t. entry = VDict d \<and>
      to_datetime (case map_of d ''dateObserved'' of None \<Rightarrow> VNone | Some v \<Rightarrow> v) =
        Inr (VTimestamp t)"
  shows "TimeSeriesObservationBuilder_build to_datetime isoformat station_id (VList entries) =
     Inr (concat (map (entry_Observations to_datetime isoformat station_id) entries)) \<and>
   (\<forall>d. VDict d \<in> set entries \<longrightarrow>
      ((\<exists>ob \<in> set (entry_Observations to_datetime isoformat station_id (VDict d)).
          getitem ob ''Datastream'' =
            Some (VDict [(''@iot.id'', VStr (station_id @ ''-temperature''))])) \<longleftrightarrow>
       ''temperature'' \<in> fst ` set d) \<and>
      ((\<exists>ob \<in> set (entry_Observations to_datetime isoformat station_id (VDict d)).
          getitem ob ''Datastream'' =
            Some (VDict [(''@iot.id'', VStr (station_id @ ''-humidity''))])) \<longleftrightarrow>
       ''relativeHumidity'' \<in> fst ` set d) \<and>
      length (entry_Observations to_datetime isoformat station_id (VDict d)) =
        (if ''temperature'' \<in> fst ` set d then 1 else 0) +
        (if ''relativeHumidity'' \<in> fst ` set d then 1 else 0))"
proof (intro conjI allI impI)
  have "\<forall>entry \<in> set entries. \<exists>new.
      build_entry to_datetime isoformat station_id [] entry = Inr new"
  proof
    fix entry assume "entry \<in> set entries"
    with assms obtain d t where "entry = VDict d"
      and "to_datetime (case map_of d ''dateObserved'' of None \<Rightarrow> VNone | Some v \<Rightarrow> v) =
        Inr (VTimestamp t)"
      by blast
    with build_entry_parsed [of to_datetime d t isoformat station_id]
    show "\<exists>new. build_entry to_datetime isoformat station_id [] entry = Inr new"
      by blast
  qed
  from build_loop_all_parsed [OF this, of "[]"]
  show "TimeSeriesObservationBuilder_build to_datetime isoformat station_id (VList entries) =
     Inr (concat (map (entry_Observations to_datetime isoformat station_id) entries))"
    by (simp add: TimeSeriesObservationBuilder_build_def)
next
  fix d assume "VDict d \<in> set entries"
  with assms obtain t where
    "to_datetime (case map_of d ''dateObserved'' of None \<Rightarrow> VNone | Some v \<Rightarrow> v) =
       Inr (VTimestamp t)"
    by auto
  from build_entry_parsed [of to_datetime d t isoformat station_id, OF this]
  have eo: "entry_Observations to_datetime isoformat station_id (VDict d) =
     (case map_of d ''temperature'' of
         None \<Rightarrow> []
       | Some v \<Rightarrow> [timeseries_Observation (station_id @ ''-temperature'') (isoformat t) v]) @
     (case map_of d ''relativeHumidity'' of
         None \<Rightarrow> []
       | Some v \<Rightarrow> [timeseries_Observation (station_id @ ''-humidity'') (isoformat t) v])"
    by (simp add: entry_Observations_def)
  have kt: "''temperature'' \<in> fst ` set d \<longleftrightarrow> (\<exists>v. map_of d ''temperature'' = Some v)"
    and kh: "''relativeHumidity'' \<in> fst ` set d \<longleftrightarrow> (\<exists>v. map_of d ''relativeHumidity'' = Some v)"
    by (simp_all only: map_of_Some_iff_key)
  show "(\<exists>ob \<in> set (entry_Observations to_datetime isoformat station_id (VDict d)).
          getitem ob ''Datastream'' =
            Some (VDict [(''@iot.id'', VStr (station_id @ ''-temperature''))])) \<longleftrightarrow>
       ''temperature'' \<in> fst ` set d"
    unfolding eo kt
    by (cases "map_of d ''temperature''"; cases "map_of d ''relativeHumidity''")
      (simp_all add: getitem_timeseries_Observation)
  show "(\<exists>ob \<in> set (entry_Observations to_datetime isoformat station_id (VDict d)).
          getitem ob ''Datastream'' =
            Some (VDict [(''@iot.id'', VStr (station_id @ ''-humidity''))])) \<longleftrightarrow>
       ''relativeHumidity'' \<in> fst ` set d"
    unfolding eo kh
    by (cases "map_of d ''temperature''"; cases "map_of d ''relativeHumidity''")
      (simp_all add: getitem_timeseries_Observation)
  show "length (entry_Observations to_datetime isoformat station_id (VDict d)) =
        (if ''temperature'' \<in> fst ` set d then 1 else 0) +
        (if ''relativeHumidity'' \<in> fst ` set d then 1 else 0)"
    unfolding eo kt kh
    by (cases "map_of d ''temperature''"; cases "map_of d ''relativeHumidity''") simp_all
qed

text \<open>
  The spec's entry with a time and a temperature only gives exactly one Observation, for
  the temperature Datastream of the station; an entry with both fields gives two; and an
  entry whose time is the empty string gives its temperature Observation with time \<open>NaT\<close>.
\<close>

theorem timeseries_Observation_iff_field_witness:
  "TimeSeriesObservationBuilder_build example_to_datetime example_isoformat ''11117''
     (VList [entry_temperature_only]) =
     Inr [timeseries_Observation ''11117-temperature'' ''2024-11-02T10:00:00+00:00'' (VFloat 18.2)] \<and>
   length (entry_Observations example_to_datetime example_isoformat ''11117'' entry_both) = 2 \<and>
   TimeSeriesObservationBuilder_build example_to_datetime example_isoformat ''11117''
     (VList [entry_empty_date]) =
     Inr [timeseries_Observation ''11117-temperature'' ''NaT'' (VFloat 16.4)]"
proof -
  have h1: "\<forall>entry \<in> set [entry_temperature_only]. \<exists>d t. entry = VDict d \<and>
      example_to_datetime (case map_of d ''dateObserved'' of None \<Rightarrow> VNone | Some v \<Rightarrow> v) =
        Inr (VTimestamp t)"
    by (simp add: entry_temperature_only_def)
  have h2: "\<forall>entry \<in> set [entry_temperature_only, entry_both]. \<exists>d t. entry = VDict d \<and>
      example_to_datetime (case map_of d ''dateObserved'' of None \<Rightarrow> VNone | Some v \<Rightarrow> v) =
        Inr (VTimestamp t)"
    by (simp add: entry_temperature_only_def entry_both_def)
  have eo: "entry_Observations example_to_datetime example_isoformat ''11117'' entry_temperature_only =
      [timeseries_Observation ''11117-temperature'' ''2024-11-02T10:00:00+00:00'' (VFloat 18.2)]"
    by (simp add: entry_Observations_def entry_temperature_only_def
        pad2_def pad4_def digit_def Let_def)
  have a: "TimeSeriesObservationBuilder_build example_to_datetime example_isoformat ''11117''
     (VList [entry_temperature_only]) =
     Inr [timeseries_Observation ''11117-temperature'' ''2024-11-02T10:00:00+00:00'' (VFloat 18.2)]"
    using timeseries_Observation_iff_field [OF h1, of example_isoformat "''11117''", THEN conjunct1] eo
    by simp
  have mem: "VDict [(''dateObserved'', VStr ''2024-11-02T11:00:00Z''), (''temperature'', VFloat 18.9),
            (''relativeHumidity'', VInt 57)] \<in> set [entry_temperature_only, entry_both]"
    by (simp add: entry_both_def)
  have b: "length (entry_Observations example_to_datetime example_isoformat ''11117'' entry_both) = 2"
    using timeseries_Observation_iff_field [OF h2, of example_isoformat "''11117''", THEN conjunct2,
        rule_format, OF mem]
    by (simp add: entry_both_def)
  have h3: "\<forall>entry \<in> set [entry_empty_date]. \<exists>d t. entry = VDict d \<and>
      example_to_datetime (case map_of d ''dateObserved'' of None \<Rightarrow> VNone | Some v \<Rightarrow> v) =
        Inr (VTimestamp t)"
    by (simp add: entry_empty_date_def)
  have eo3: "entry_Observations example_to_datetime example_isoformat ''11117'' entry_empty_date =
      [timeseries_Observation ''11117-temperature'' ''NaT'' (VFloat 16.4)]"
    by (simp add: entry_Observations_def entry_empty_date_def Let_def)
  have c: "TimeSeriesObservationBuilder_build example_to_datetime example_isoformat ''11117''
     (VList [entry_empty_date]) =
     Inr [timeseries_Observation ''11117-temperature'' ''NaT'' (VFloat 16.4)]"
    using timeseries_Observation_iff_field [OF h3, of example_isoformat "''11117''", THEN conjunct1] eo3
    by simp
  from a b c show ?thesis by blast
qed

lemma example_build_raises_after_both:
  "TimeSeriesObservationBuilder_build example_to_datetime example_isoformat ''11117''
     (VList [entry_both, entry_bad_date]) =
   Inl (ValueError ''Unknown datetime string format, unable to parse: yesterday-ish'')"
  by (simp add: TimeSeriesObservationBuilder_build_def entry_both_def entry_bad_date_def Let_def)

text \<open>
  Claim C4, as stated, fails: in the list of the entry with both fields followed by the
  entry whose time is not a date, both entries have a \<open>temperature\<close> field, but the builder
  raises and no temperature Observation is returned for either.
\<close>

theorem field_without_Observation_counterexample:
  "getitem entry_both ''temperature'' = Some (VFloat 18.9) \<and>
   getitem entry_bad_date ''temperature'' = Some (VFloat 17.0) \<and>
   TimeSeriesObservationBuilder_build example_to_datetime example_isoformat ''11117''
     (VList [entry_both, entry_bad_date]) =
   Inl (ValueError ''Unknown datetime string format, unable to parse: yesterday-ish'')"
  using example_build_raises_after_both by (simp add: entry_both_def entry_bad_date_def)

section \<open>Time-series path: the facade\<close>

lemma convert_timeseries_cases:
  assumes "station_id \<noteq> []"
  shows "convert_timeseries requests_get to_datetime isoformat base_url station_id time_from time_to =
     Inr (case convert_timeseries_try requests_get to_datetime isoformat (client_url base_url)
                 station_id time_from time_to of
            Inl e \<Rightarrow> no_Observations
          | Inr payload \<Rightarrow> payload)"
  using assms by (simp add: convert_timeseries_def split: sum.splits)

lemma convert_timeseries_try_payload:
  assumes "convert_timeseries_try requests_get to_datetime isoformat url station_id time_from time_to =
     Inr payload"
  shows "\<exists>observations. payload = VDict [(''Observations'', VList observations)]"
  using assms
  by (auto simp add: convert_timeseries_try_def no_Observations_def Let_def
      split: sum.splits if_splits)

text \<open>
  Claim C1. For every non-empty station id, \<open>convert_timeseries\<close> returns a result of the
  form \<open>{"Observations": [...]}\<close> and never raises. The result is \<open>{"Observations": []}\<close>
  when the upstream answer is empty (status 204 or a blank body, or a fetched value that is
  empty), when the fetch raises, and when the builder raises.
\<close>

theorem convert_timeseries_never_raises:
  assumes "station_id \<noteq> []"
  shows "(\<exists>observations.
      convert_timeseries requests_get to_datetime isoformat base_url station_id time_from time_to =
        Inr (VDict [(''Observations'', VList observations)])) \<and>
   (\<forall>r. requests_get (timeseries_url (client_url base_url) station_id time_from time_to) = Inr r \<and>
        (status_code r = 204 \<or> strip (content r) = []) \<longrightarrow>
      convert_timeseries requests_get to_datetime isoformat base_url station_id time_from time_to =
        Inr (VDict [(''Observations'', VList [])])) \<and>
   (\<forall>ts_data.
      fetch_timeseries requests_get (client_url base_url) station_id time_from time_to =
        Inr ts_data \<and> \<not> truthy (values_of ts_data) \<longrightarrow>
      convert_timeseries requests_get to_datetime isoformat base_url station_id time_from time_to =
        Inr (VDict [(''Observations'', VList [])])) \<and>
   (\<forall>e.
      fetch_timeseries requests_get (client_url base_url) station_id time_from time_to = Inl e \<longrightarrow>
      convert_timeseries requests_get to_datetime isoformat base_url station_id time_from time_to =
        Inr (VDict [(''Observations'', VList [])])) \<and>
   (\<forall>ts_data e.
      fetch_timeseries requests_get (client_url base_url) station_id time_from time_to =
        Inr ts_data \<and>
      TimeSeriesObservationBuilder_build to_datetime isoformat station_id (values_of ts_data) =
        Inl e \<longrightarrow>
      convert_timeseries requests_get to_datetime isoformat base_url station_id time_from time_to =
        Inr (VDict [(''Observations'', VList [])]))"
proof (intro conjI allI impI)
  note c = convert_timeseries_cases [OF assms, of requests_get to_datetime isoformat base_url
      time_from time_to]
  show "\<exists>observations.
      convert_timeseries requests_get to_datetime isoformat base_url station_id time_from time_to =
        Inr (VDict [(''Observations'', VList observations)])"
  proof (cases "convert_timeseries_try requests_get to_datetime isoformat (client_url base_url)
                 station_id time_from time_to")
    case (Inl e)
    with c show ?thesis by (simp add: no_Observations_def)
  next
    case (Inr payload)
    from convert_timeseries_try_payload [OF this] Inr c show ?thesis by auto
  qed
  {
    fix r
    assume "requests_get (timeseries_url (client_url base_url) station_id time_from time_to) = Inr r \<and>
        (status_code r = 204 \<or> strip (content r) = [])"
    then have "fetch_timeseries requests_get (client_url base_url) station_id time_from time_to =
        Inr (VList [])"
      by (auto simp add: fetch_timeseries_def)
    then show "convert_timeseries requests_get to_datetime isoformat base_url station_id
        time_from time_to = Inr (VDict [(''Observations'', VList [])])"
      using c by (simp add: convert_timeseries_try_def no_Observations_def)
  }
  {
    fix ts_data
    assume "fetch_timeseries requests_get (client_url base_url) station_id time_from time_to =
        Inr ts_data \<and> \<not> truthy (values_of ts_data)"
    then show "convert_timeseries requests_get to_datetime isoformat base_url station_id
        time_from time_to = Inr (VDict [(''Observations'', VList [])])"
      using c by (simp add: convert_timeseries_try_def no_Observations_def)
  }
  {
    fix e
    assume "fetch_timeseries requests_get (client_url base_url) station_id time_from time_to = Inl e"
    then show "convert_timeseries requests_get to_datetime isoformat base_url station_id
        time_from time_to = Inr (VDict [(''Observations'', VList [])])"
      using c by (simp add: convert_timeseries_try_def no_Observations_def)
  }
  {
    fix ts_data e
    assume "fetch_timeseries requests_get (client_url base_url) station_id time_from time_to =
        Inr ts_data \<and>
      TimeSeriesObservationBuilder_build to_datetime isoformat station_id (values_of ts_data) =
        Inl e"
    then show "convert_timeseries requests_get to_datetime isoformat base_url station_id
        time_from time_to = Inr (VDict [(''Observations'', VList [])])"
      using c by (simp add: convert_timeseries_try_def no_Observations_def Let_def)
  }
qed

lemma example_fetch_timeseries:
  "fetch_timeseries (network_json document) (client_url None) ''11117'' None None = Inr document"
  by (simp add: fetch_timeseries_def network_json_def example_response_def strip_def is_space_def)

lemma example_build_raises:
  "TimeSeriesObservationBuilder_build example_to_datetime example_isoformat ''11117''
     (VList [entry_temperature_only, entry_bad_date]) =
   Inl (ValueError ''Unknown datetime string format, unable to parse: yesterday-ish'')"
  by (simp add: TimeSeriesObservationBuilder_build_def entry_temperature_only_def
      entry_bad_date_def Let_def)

text \<open>
  For station 11117: a network that cannot connect, a server answering 204, and an answer
  whose second entry has an unparseable time all give \<open>{"Observations": []}\<close>.
\<close>

theorem convert_timeseries_never_raises_witness:
  "convert_timeseries network_down example_to_datetime example_isoformat None ''11117'' None None =
     Inr (VDict [(''Observations'', VList [])]) \<and>
   convert_timeseries (network_status 204) example_to_datetime example_isoformat None ''11117''
     None None = Inr (VDict [(''Observations'', VList [])]) \<and>
   convert_timeseries (network_json (VList [entry_temperature_only, entry_bad_date]))
     example_to_datetime example_isoformat None ''11117'' None None =
     Inr (VDict [(''Observations'', VList [])]) \<and>
   (\<exists>observations.
      convert_timeseries (network_json (VList [entry_temperature_only, entry_both]))
        example_to_datetime example_isoformat None ''11117'' None None =
        Inr (VDict [(''Observations'', VList observations)]))"
proof -
  have sid: "''11117'' \<noteq> []" by simp
  have down: "fetch_timeseries network_down (client_url None) ''11117'' None None =
      Inl ConnectionError"
    by (simp add: fetch_timeseries_def network_down_def)
  have a: "convert_timeseries network_down example_to_datetime example_isoformat None ''11117''
      None None = Inr (VDict [(''Observations'', VList [])])"
    using convert_timeseries_never_raises [OF sid, of network_down example_to_datetime
        example_isoformat None None None, THEN conjunct2, THEN conjunct2, THEN conjunct2,
        THEN conjunct1, rule_format, OF down] .
  have r204: "network_status 204 (timeseries_url (client_url None) ''11117'' None None) =
      Inr (example_response 204 [] (Inl JSONDecodeError)) \<and>
      (status_code (example_response 204 [] (Inl JSONDecodeError)) = 204 \<or>
       strip (content (example_response 204 [] (Inl JSONDecodeError))) = [])"
    by (simp add: network_status_def example_response_def)
  have b: "convert_timeseries (network_status 204) example_to_datetime example_isoformat None
      ''11117'' None None = Inr (VDict [(''Observations'', VList [])])"
    using convert_timeseries_never_raises [OF sid, of "network_status 204" example_to_datetime
        example_isoformat None None None, THEN conjunct2, THEN conjunct1, rule_format, OF r204] .
  have bad: "fetch_timeseries (network_json (VList [entry_temperature_only, entry_bad_date]))
        (client_url None) ''11117'' None None =
        Inr (VList [entry_temperature_only, entry_bad_date]) \<and>
      TimeSeriesObservationBuilder_build example_to_datetime example_isoformat ''11117''
        (values_of (VList [entry_temperature_only, entry_bad_date])) =
        Inl (ValueError ''Unknown datetime string format, unable to parse: yesterday-ish'')"
    using example_fetch_timeseries example_build_raises by simp
  have c: "convert_timeseries (network_json (VList [entry_temperature_only, entry_bad_date]))
      example_to_datetime example_isoformat None ''11117'' None None =
      Inr (VDict [(''Observations'', VList [])])"
    using convert_timeseries_never_raises [OF sid,
        of "network_json (VList [entry_temperature_only, entry_bad_date])" example_to_datetime
        example_isoformat None None None, THEN conjunct2, THEN conjunct2, THEN conjunct2,
        THEN conjunct2, rule_format, OF bad] .
  have d: "\<exists>observations.
      convert_timeseries (network_json (VList [entry_temperature_only, entry_both]))
        example_to_datetime example_isoformat None ''11117'' None None =
        Inr (VDict [(''Observations'', VList observations)])"
    using convert_timeseries_never_raises [OF sid,
        of "network_json (VList [entry_temperature_only, entry_both])" example_to_datetime
        example_isoformat None None None, THEN conjunct1] .
  from a b c d show ?thesis by blast
qed

text \<open>
  Claim C6. With an empty station id \<open>convert_timeseries\<close> raises \<open>ValueError\<close> (the spec's
  InvalidArgument), whatever \<open>timeFrom\<close> and \<open>timeTo\<close> are and whatever the network would
  answer: the check is before the \<open>try\<close> block, so the error reaches the caller and is not
  turned into \<open>{"Observations": []}\<close>.
\<close>

theorem convert_timeseries_empty_stationId:
  "convert_timeseries requests_get to_datetime isoformat base_url [] time_from time_to =
     Inl invalid_stationId \<and>
   (\<exists>message. invalid_stationId = ValueError message) \<and>
   convert_timeseries requests_get to_datetime isoformat base_url [] time_from time_to \<noteq>
     Inr (VDict [(''Observations'', VList [])])"
  by (simp add: convert_timeseries_def invalid_stationId_def)

text \<open>With a time range and a network that would answer with data, the call still raises.\<close>

theorem convert_timeseries_empty_stationId_witness:
  "\<exists>message.
     convert_timeseries (network_json (VList [entry_both])) example_to_datetime example_isoformat
       None [] (Some ''2024-11-01T00:00:00Z'') (Some ''2024-11-05T00:00:00Z'') =
     Inl (ValueError message)"
  using convert_timeseries_empty_stationId [of "network_json (VList [entry_both])"
      example_to_datetime example_isoformat None "Some ''2024-11-01T00:00:00Z''"
      "Some ''2024-11-05T00:00:00Z''"]
  by metis

text \<open>
  Claim C7, as the code has it. When the list has an entry on whose \<open>dateObserved\<close>
  \<open>pd.to_datetime\<close> raises or returns a value without an \<open>isoformat\<close> method,
  \<open>TimeSeriesObservationBuilder.build\<close> raises and returns no Observation at all, and
  \<open>convert_timeseries\<close> on an upstream answer with these entries returns
  \<open>{"Observations": []}\<close>: the failure is not confined to the entry, the Observations of all
  other entries are dropped with it.
\<close>

theorem unparseable_entry_empties_result:
  assumes "VDict d \<in> set entries"
    and "(\<exists>e. to_datetime (case map_of d ''dateObserved'' of None \<Rightarrow> VNone | Some v \<Rightarrow> v) =
            Inl e) \<or>
         (\<exists>v. to_datetime (case map_of d ''dateObserved'' of None \<Rightarrow> VNone | Some v \<Rightarrow> v) =
            Inr v \<and> (\<nexists>t. v = VTimestamp t))"
  shows "(\<exists>e. TimeSeriesObservationBuilder_build to_datetime isoformat station_id (VList entries) =
        Inl e) \<and>
   (\<forall>ts_data. station_id \<noteq> [] \<and>
        fetch_timeseries requests_get (client_url base_url) station_id time_from time_to =
          Inr ts_data \<and>
        values_of ts_data = VList entries \<longrightarrow>
      convert_timeseries requests_get to_datetime isoformat base_url station_id time_from time_to =
        Inr (VDict [(''Observations'', VList [])]))"
proof (intro conjI allI impI)
  from assms(2)
  have "\<nexists>t. to_datetime (case map_of d ''dateObserved'' of None \<Rightarrow> VNone | Some v \<Rightarrow> v) =
      Inr (VTimestamp t)"
    by auto
  from build_entry_unparsed [of to_datetime d isoformat station_id "[]", OF this]
  obtain e where "build_entry to_datetime isoformat station_id [] (VDict d) = Inl e" ..
  from build_loop_raises [OF assms(1) this, of "[]"]
  obtain e' where e': "build_loop to_datetime isoformat station_id entries [] = Inl e'" ..
  then have b: "TimeSeriesObservationBuilder_build to_datetime isoformat station_id (VList entries) =
      Inl e'"
    by (simp add: TimeSeriesObservationBuilder_build_def)
  then show "\<exists>e. TimeSeriesObservationBuilder_build to_datetime isoformat station_id (VList entries) =
      Inl e" ..
  fix ts_data
  assume h: "station_id \<noteq> [] \<and>
        fetch_timeseries requests_get (client_url base_url) station_id time_from time_to =
          Inr ts_data \<and>
        values_of ts_data = VList entries"
  from assms(1) have "entries \<noteq> []" by auto
  with h b have "convert_timeseries_try requests_get to_datetime isoformat (client_url base_url)
      station_id time_from time_to = Inl e'"
    by (simp add: convert_timeseries_try_def Let_def)
  with h convert_timeseries_cases [of station_id requests_get to_datetime isoformat base_url
      time_from time_to]
  show "convert_timeseries requests_get to_datetime isoformat base_url station_id time_from time_to =
        Inr (VDict [(''Observations'', VList [])])"
    by (simp add: no_Observations_def)
qed

text \<open>
  The answer with a good entry followed by one whose time is not a date, on which
  \<open>pd.to_datetime\<close> raises, and the answer with a good entry followed by one without a time,
  for which \<open>pd.to_datetime\<close> returns \<open>None\<close>: the builder raises and the conversion of
  station 11117 is empty.
\<close>

theorem unparseable_entry_empties_result_witness:
  "(\<exists>e. TimeSeriesObservationBuilder_build example_to_datetime example_isoformat ''11117''
        (VList [entry_temperature_only, entry_bad_date]) = Inl e) \<and>
   convert_timeseries (network_json (VList [entry_temperature_only, entry_bad_date]))
     example_to_datetime example_isoformat None ''11117'' None None =
     Inr (VDict [(''Observations'', VList [])]) \<and>
   (\<exists>e. TimeSeriesObservationBuilder_build example_to_datetime example_isoformat ''11117''
        (VList [entry_both, entry_no_date]) = Inl e) \<and>
   convert_timeseries (network_json (VList [entry_both, entry_no_date]))
     example_to_datetime example_isoformat None ''11117'' None None =
     Inr (VDict [(''Observations'', VList [])])"
proof -
  let ?entries = "[entry_temperature_only, entry_bad_date]"
  let ?d = "[(''dateObserved'', VStr ''yesterday-ish''), (''temperature'', VFloat 17.0)]"
  have mem: "VDict ?d \<in> set ?entries"
    by (simp add: entry_bad_date_def)
  have bad: "(\<exists>e. example_to_datetime
        (case map_of ?d ''dateObserved'' of None \<Rightarrow> VNone | Some v \<Rightarrow> v) = Inl e) \<or>
      (\<exists>v. example_to_datetime
        (case map_of ?d ''dateObserved'' of None \<Rightarrow> VNone | Some v \<Rightarrow> v) = Inr v \<and>
        (\<nexists>t. v = VTimestamp t))"
    by simp
  note inst = unparseable_entry_empties_result [of ?d ?entries example_to_datetime
      example_isoformat "''11117''" "network_json (VList ?entries)" None None None, OF mem bad]
  have h: "''11117'' \<noteq> [] \<and>
      fetch_timeseries (network_json (VList ?entries)) (client_url None) ''11117'' None None =
        Inr (VList ?entries) \<and>
      values_of (VList ?entries) = VList ?entries"
    using example_fetch_timeseries by simp
  let ?entries' = "[entry_both, entry_no_date]"
  let ?d' = "[(''relativeHumidity'', VInt 71)]"
  have mem': "VDict ?d' \<in> set ?entries'"
    by (simp add: entry_no_date_def)
  have bad': "(\<exists>e. example_to_datetime
        (case map_of ?d' ''dateObserved'' of None \<Rightarrow> VNone | Some v \<Rightarrow> v) = Inl e) \<or>
      (\<exists>v. example_to_datetime
        (case map_of ?d' ''dateObserved'' of None \<Rightarrow> VNone | Some v \<Rightarrow> v) = Inr v \<and>
        (\<nexists>t. v = VTimestamp t))"
    by simp
  note inst' = unparseable_entry_empties_result [of ?d' ?entries' example_to_datetime
      example_isoformat "''11117''" "network_json (VList ?entries')" None None None, OF mem' bad']
  have h': "''11117'' \<noteq> [] \<and>
      fetch_timeseries (network_json (VList ?entries')) (client_url None) ''11117'' None None =
        Inr (VList ?entries') \<and>
      values_of (VList ?entries') = VList ?entries'"
    using example_fetch_timeseries by simp
  from inst [THEN conjunct1] inst [THEN conjunct2, rule_format, OF h]
    inst' [THEN conjunct1] inst' [THEN conjunct2, rule_format, OF h']
  show ?thesis by blast
qed

text \<open>
  Claim C7, as stated, fails: the entry with the parseable time gives one Observation when
  it is alone, but followed by an entry with an unparseable time the builder raises and the
  conversion returns no Observation, so the parseable entry lost its Observation.
\<close>

theorem bad_entry_drops_others_counterexample:
  "TimeSeriesObservationBuilder_build example_to_datetime example_isoformat ''11117''
     (VList [entry_temperature_only]) =
     Inr [timeseries_Observation ''11117-temperature'' ''2024-11-02T10:00:00+00:00'' (VFloat 18.2)] \<and>
   TimeSeriesObservationBuilder_build example_to_datetime example_isoformat ''11117''
     (VList [entry_temperature_only, entry_bad_date]) =
     Inl (ValueError ''Unknown datetime string format, unable to parse: yesterday-ish'') \<and>
   convert_timeseries (network_json (VList [entry_temperature_only, entry_bad_date]))
     example_to_datetime example_isoformat None ''11117'' None None =
     Inr (VDict [(''Observations'', VList [])])"
proof -
  have a: "TimeSeriesObservationBuilder_build example_to_datetime example_isoformat ''11117''
     (VList [entry_temperature_only]) =
     Inr [timeseries_Observation ''11117-temperature'' ''2024-11-02T10:00:00+00:00'' (VFloat 18.2)]"
    by (simp add: TimeSeriesObservationBuilder_build_def entry_temperature_only_def
        pad2_def pad4_def digit_def Let_def)
  have c: "convert_timeseries (network_json (VList [entry_temperature_only, entry_bad_date]))
     example_to_datetime example_isoformat None ''11117'' None None =
     Inr (VDict [(''Observations'', VList [])])"
    using example_fetch_timeseries [of "VList [entry_temperature_only, entry_bad_date]"]
      example_build_raises
    by (simp add: convert_timeseries_def convert_timeseries_try_def no_Observations_def Let_def)
  from a example_build_raises c show ?thesis by blast
qed

end
